theory Spec2Isabelle
  imports Main "HOL-Library.Sublist"
begin


section \<open>The page: browser globals, promises, timers and script elements\<close>

text \<open>
  The loaders and the component run on one JavaScript event loop. The page record holds
  what they share: the clock, the two provider globals (\<open>window.grecaptcha\<close>,
  \<open>window.turnstile\<close>), the script elements of the document, the promises created by
  the loaders, the timers registered with \<open>setTimeout\<close> and \<open>setInterval\<close>, and the
  module-level variables of \<open>googleLoader.ts\<close> and \<open>cloudflareLoader.ts\<close>.
  \<open>schedule\<close> is the timer queue of the event loop: the numbers of the timers in
  the order in which they were last scheduled.
\<close>

text \<open>
  \<open>window.grecaptcha\<close> is tested twice in the source: for being defined and for having
  an \<open>execute\<close> member. The three values are: undefined, defined without \<open>execute\<close>,
  defined with \<open>execute\<close>.
\<close>

datatype gapi = GAbsent | GNoExecute | GReady

text \<open>A JavaScript \<open>new Error(message)\<close>.\<close>

datatype error = Error string

text \<open>A \<open>Promise<void>\<close>: settled at most once.\<close>

datatype pstate = Pending | Fulfilled | Rejected error

text \<open>
  The closures handed to \<open>setTimeout\<close> and \<open>setInterval\<close>, with the variables they
  capture. The first four belong to the loaders (the promise they settle, and for the
  10 second timeout also the interval it clears); the others belong to the component
  (the number of the effect run that registered them).
\<close>

datatype callback =
    GCheckReady nat
  | GLoadTimeout nat nat
  | CfCheckReady nat
  | CfLoadTimeout nat nat
  | InitCaptcha nat
  | SettleAfterLoad nat
  | SettleBeforeExecute nat
  | ResetDelay

record timer =
  due :: nat
  period :: "nat option"
  cb :: callback
  active :: bool

text \<open>
  A script element of the document. The loaders attach \<open>onload\<close> and \<open>onerror\<close>
  handlers that settle the promise created in the same call; a script put there by other
  code has none. \<open>fired\<close> records that the browser has already dispatched the load or
  error event of the element (it dispatches one of them, once).
\<close>

datatype script_owner = GoogleLoader nat | CloudflareLoader nat | Foreign

record script =
  src :: string
  owner :: script_owner
  fired :: bool

record page =
  now :: nat
  grecaptcha :: gapi
  turnstile :: bool
  scripts :: "script list"
  promises :: "pstate list"
  timers :: "timer list"
  schedule :: "nat list"
  scriptLoaded :: bool
  scriptLoading :: bool
  loadPromise :: "nat option"
  cfScriptLoaded :: bool
  cfScriptLoading :: bool
  cfLoadPromise :: "nat option"

subsection \<open>Promises\<close>

text \<open>\<open>new Promise\<close>: the new promise is numbered by its position in the table.\<close>

definition new_promise :: "pstate \<Rightarrow> 'a page_scheme \<Rightarrow> nat \<times> 'a page_scheme" where
  "new_promise s pg = (length (promises pg), pg\<lparr>promises := promises pg @ [s]\<rparr>)"

text \<open>\<open>Promise.resolve()\<close>: a fresh promise that is already fulfilled.\<close>

definition promise_resolve :: "'a page_scheme \<Rightarrow> nat \<times> 'a page_scheme" where
  "promise_resolve pg = new_promise Fulfilled pg"

text \<open>
  Calling \<open>resolve\<close> or \<open>reject\<close> of a promise that is already settled does nothing.
\<close>

definition settle :: "nat \<Rightarrow> pstate \<Rightarrow> 'a page_scheme \<Rightarrow> 'a page_scheme" where
  "settle p s pg =
     (if p < length (promises pg) \<and> promises pg ! p = Pending
      then pg\<lparr>promises := (promises pg)[p := s]\<rparr> else pg)"

definition resolve :: "nat \<Rightarrow> 'a page_scheme \<Rightarrow> 'a page_scheme" where
  "resolve p pg = settle p Fulfilled pg"

definition reject :: "nat \<Rightarrow> error \<Rightarrow> 'a page_scheme \<Rightarrow> 'a page_scheme" where
  "reject p e pg = settle p (Rejected e) pg"

definition promise_state :: "nat \<Rightarrow> 'a page_scheme \<Rightarrow> pstate option" where
  "promise_state p pg = (if p < length (promises pg) then Some (promises pg ! p) else None)"

subsection \<open>Timers\<close>

text \<open>
  \<open>setTimeout(f, d)\<close> and \<open>setInterval(f, d)\<close> return the number of the new timer,
  due \<open>d\<close> milliseconds from now, and put it at the end of the queue. \<open>clearTimeout\<close>
  and \<open>clearInterval\<close> deactivate it.
\<close>

definition setTimeout :: "callback \<Rightarrow> nat \<Rightarrow> 'a page_scheme \<Rightarrow> nat \<times> 'a page_scheme" where
  "setTimeout f d pg =
     (length (timers pg),
      pg\<lparr>timers := timers pg @ [\<lparr>due = now pg + d, period = None, cb = f, active = True\<rparr>],
         schedule := schedule pg @ [length (timers pg)]\<rparr>)"

definition setInterval :: "callback \<Rightarrow> nat \<Rightarrow> 'a page_scheme \<Rightarrow> nat \<times> 'a page_scheme" where
  "setInterval f d pg =
     (length (timers pg),
      pg\<lparr>timers := timers pg @ [\<lparr>due = now pg + d, period = Some d, cb = f, active = True\<rparr>],
         schedule := schedule pg @ [length (timers pg)]\<rparr>)"

definition clearTimer :: "nat \<Rightarrow> 'a page_scheme \<Rightarrow> 'a page_scheme" where
  "clearTimer i pg =
     (if i < length (timers pg)
      then pg\<lparr>timers := (timers pg)[i := (timers pg ! i)\<lparr>active := False\<rparr>]\<rparr> else pg)"

subsection \<open>The document\<close>

text \<open>
  \<open>document.querySelector('script[src*="..."]')\<close> finds a script element whose
  \<open>src\<close> contains the given text.
\<close>

definition existingScript :: "string \<Rightarrow> 'a page_scheme \<Rightarrow> bool" where
  "existingScript pat pg = list_ex (\<lambda>s. sublist pat (src s)) (scripts pg)"

definition appendScript :: "string \<Rightarrow> script_owner \<Rightarrow> 'a page_scheme \<Rightarrow> 'a page_scheme" where
  "appendScript url ow pg =
     pg\<lparr>scripts := scripts pg @ [\<lparr>src = url, owner = ow, fired = False\<rparr>]\<rparr>"

section \<open>googleLoader.ts\<close>

definition google_url :: "string \<Rightarrow> string" where
  "google_url siteKey = ''https://www.google.com/recaptcha/api.js?render='' @ siteKey"

text \<open>
  \<open>loadGoogleScript\<close> returns a promise. The three early returns come first, in the
  source's order; then the flag is set and the executor of the new promise runs inside
  the constructor, before the promise is stored in \<open>loadPromise\<close>.
\<close>

definition loadGoogleScript :: "string \<Rightarrow> 'a page_scheme \<Rightarrow> nat \<times> 'a page_scheme" where
  "loadGoogleScript siteKey pg =
     (if scriptLoaded pg \<and> grecaptcha pg \<noteq> GAbsent then promise_resolve pg
      else if scriptLoading pg \<and> loadPromise pg \<noteq> None then (the (loadPromise pg), pg)
      else if existingScript ''google.com/recaptcha'' pg \<and> grecaptcha pg \<noteq> GAbsent
        then promise_resolve (pg\<lparr>scriptLoaded := True\<rparr>)
      else
        let pg1 = pg\<lparr>scriptLoading := True\<rparr> in
        if grecaptcha pg1 = GReady then
          let (p, pg2) = new_promise Fulfilled (pg1\<lparr>scriptLoaded := True, scriptLoading := False\<rparr>)
          in (p, pg2\<lparr>loadPromise := Some p\<rparr>)
        else
          let (p, pg2) = new_promise Pending pg1;
              pg3 = appendScript (google_url siteKey) (GoogleLoader p) pg2
          in (p, pg3\<lparr>loadPromise := Some p\<rparr>))"

text \<open>\<open>script.onload\<close>: the flags, then the 100 ms poll and the 10 s timeout.\<close>

definition google_onload :: "nat \<Rightarrow> 'a page_scheme \<Rightarrow> 'a page_scheme" where
  "google_onload p pg =
     (let pg1 = pg\<lparr>scriptLoaded := True, scriptLoading := False\<rparr>;
          (checkReady, pg2) = setInterval (GCheckReady p) 100 pg1;
          (t, pg3) = setTimeout (GLoadTimeout p checkReady) 10000 pg2
      in pg3)"

text \<open>The callback of the poll; \<open>checkReady\<close> is the interval itself.\<close>

definition google_checkReady :: "nat \<Rightarrow> nat \<Rightarrow> 'a page_scheme \<Rightarrow> 'a page_scheme" where
  "google_checkReady p checkReady pg =
     (if grecaptcha pg = GReady then resolve p (clearTimer checkReady pg) else pg)"

text \<open>The callback of the 10 s timeout.\<close>

definition google_timeout :: "nat \<Rightarrow> nat \<Rightarrow> 'a page_scheme \<Rightarrow> 'a page_scheme" where
  "google_timeout p checkReady pg =
     (let pg1 = clearTimer checkReady pg in
      if grecaptcha pg1 \<noteq> GAbsent then resolve p pg1
      else reject p (Error ''Google reCAPTCHA failed to load'') pg1)"

text \<open>\<open>script.onerror\<close>.\<close>

definition google_onerror :: "nat \<Rightarrow> 'a page_scheme \<Rightarrow> 'a page_scheme" where
  "google_onerror p pg =
     reject p (Error ''Failed to load Google reCAPTCHA script'')
       (pg\<lparr>scriptLoading := False, loadPromise := None\<rparr>)"

definition resetGoogleScript :: "'a page_scheme \<Rightarrow> 'a page_scheme" where
  "resetGoogleScript pg = pg\<lparr>scriptLoaded := False, scriptLoading := False, loadPromise := None\<rparr>"

section \<open>cloudflareLoader.ts\<close>

definition cloudflare_url :: string where
  "cloudflare_url = ''https://challenges.cloudflare.com/turnstile/v0/api.js''"

definition loadCloudflareScript :: "'a page_scheme \<Rightarrow> nat \<times> 'a page_scheme" where
  "loadCloudflareScript pg =
     (if cfScriptLoaded pg \<and> turnstile pg then promise_resolve pg
      else if cfScriptLoading pg \<and> cfLoadPromise pg \<noteq> None then (the (cfLoadPromise pg), pg)
      else if existingScript ''challenges.cloudflare.com/turnstile'' pg \<and> turnstile pg
        then promise_resolve (pg\<lparr>cfScriptLoaded := True\<rparr>)
      else
        let pg1 = pg\<lparr>cfScriptLoading := True\<rparr> in
        if turnstile pg1 then
          let (p, pg2) = new_promise Fulfilled (pg1\<lparr>cfScriptLoaded := True, cfScriptLoading := False\<rparr>)
          in (p, pg2\<lparr>cfLoadPromise := Some p\<rparr>)
        else
          let (p, pg2) = new_promise Pending pg1;
              pg3 = appendScript cloudflare_url (CloudflareLoader p) pg2
          in (p, pg3\<lparr>cfLoadPromise := Some p\<rparr>))"

definition cloudflare_onload :: "nat \<Rightarrow> 'a page_scheme \<Rightarrow> 'a page_scheme" where
  "cloudflare_onload p pg =
     (let pg1 = pg\<lparr>cfScriptLoaded := True, cfScriptLoading := False\<rparr>;
          (checkReady, pg2) = setInterval (CfCheckReady p) 100 pg1;
          (t, pg3) = setTimeout (CfLoadTimeout p checkReady) 10000 pg2
      in pg3)"

definition cloudflare_checkReady :: "nat \<Rightarrow> nat \<Rightarrow> 'a page_scheme \<Rightarrow> 'a page_scheme" where
  "cloudflare_checkReady p checkReady pg =
     (if turnstile pg then resolve p (clearTimer checkReady pg) else pg)"

definition cloudflare_timeout :: "nat \<Rightarrow> nat \<Rightarrow> 'a page_scheme \<Rightarrow> 'a page_scheme" where
  "cloudflare_timeout p checkReady pg =
     (let pg1 = clearTimer checkReady pg in
      if turnstile pg1 then resolve p pg1
      else reject p (Error ''Cloudflare Turnstile failed to load'') pg1)"

definition cloudflare_onerror :: "nat \<Rightarrow> 'a page_scheme \<Rightarrow> 'a page_scheme" where
  "cloudflare_onerror p pg =
     reject p (Error ''Failed to load Cloudflare Turnstile script'')
       (pg\<lparr>cfScriptLoading := False, cfLoadPromise := None\<rparr>)"

definition resetCloudflareScript :: "'a page_scheme \<Rightarrow> 'a page_scheme" where
  "resetCloudflareScript pg =
     pg\<lparr>cfScriptLoaded := False, cfScriptLoading := False, cfLoadPromise := None\<rparr>"

text \<open>
  The browser dispatches the load or the error event of script element \<open>k\<close>: the handler
  the loader attached runs. A script that has had its event, or that carries no handler,
  does nothing.
\<close>

definition script_load :: "nat \<Rightarrow> 'a page_scheme \<Rightarrow> 'a page_scheme" where
  "script_load k pg =
     (if k < length (scripts pg) \<and> \<not> fired (scripts pg ! k) then
        let pg1 = pg\<lparr>scripts := (scripts pg)[k := (scripts pg ! k)\<lparr>fired := True\<rparr>]\<rparr> in
        (case owner (scripts pg ! k) of
           GoogleLoader p \<Rightarrow> google_onload p pg1
         | CloudflareLoader p \<Rightarrow> cloudflare_onload p pg1
         | Foreign \<Rightarrow> pg1)
      else pg)"

definition script_error :: "nat \<Rightarrow> 'a page_scheme \<Rightarrow> 'a page_scheme" where
  "script_error k pg =
     (if k < length (scripts pg) \<and> \<not> fired (scripts pg ! k) then
        let pg1 = pg\<lparr>scripts := (scripts pg)[k := (scripts pg ! k)\<lparr>fired := True\<rparr>]\<rparr> in
        (case owner (scripts pg ! k) of
           GoogleLoader p \<Rightarrow> google_onerror p pg1
         | CloudflareLoader p \<Rightarrow> cloudflare_onerror p pg1
         | Foreign \<Rightarrow> pg1)
      else pg)"

text \<open>A freshly opened page: nothing loaded, no provider global, an empty document.\<close>

definition fresh_page :: page where
  "fresh_page =
     \<lparr>now = 0, grecaptcha = GAbsent, turnstile = False, scripts = [], promises = [],
      timers = [], schedule = [], scriptLoaded = False, scriptLoading = False, loadPromise = None,
      cfScriptLoaded = False, cfScriptLoading = False, cfLoadPromise = None\<rparr>"

section \<open>Timers firing\<close>

text \<open>
  When timer \<open>i\<close> fires, the clock has reached its due time. A timeout is spent; an
  interval is scheduled again, due one period later, behind the timers already in the
  queue.
\<close>

definition rearm :: "nat \<Rightarrow> 'a page_scheme \<Rightarrow> 'a page_scheme" where
  "rearm i pg =
     (let t = timers pg ! i;
          t' = (case period t of None \<Rightarrow> t\<lparr>active := False\<rparr>
                | Some d \<Rightarrow> t\<lparr>due := due t + d\<rparr>)
      in pg\<lparr>now := max (now pg) (due t), timers := (timers pg)[i := t'],
            schedule := (case period t of None \<Rightarrow> schedule pg
                         | Some d \<Rightarrow> filter (\<lambda>j. j \<noteq> i) (schedule pg) @ [i])\<rparr>)"

text \<open>The loaders' callbacks; \<open>i\<close> is the timer that fired.\<close>

definition loader_callback :: "callback \<Rightarrow> nat \<Rightarrow> 'a page_scheme \<Rightarrow> 'a page_scheme" where
  "loader_callback f i pg =
     (case f of
        GCheckReady p \<Rightarrow> google_checkReady p i pg
      | GLoadTimeout p checkReady \<Rightarrow> google_timeout p checkReady pg
      | CfCheckReady p \<Rightarrow> cloudflare_checkReady p i pg
      | CfLoadTimeout p checkReady \<Rightarrow> cloudflare_timeout p checkReady pg
      | _ \<Rightarrow> pg)"

text \<open>Timer \<open>i\<close> fires, if it is registered and has not been cleared.\<close>

definition fire_timer :: "nat \<Rightarrow> 'a page_scheme \<Rightarrow> 'a page_scheme" where
  "fire_timer i pg =
     (if i < length (timers pg) \<and> active (timers pg ! i)
      then loader_callback (cb (timers pg ! i)) i (rearm i pg) else pg)"

text \<open>
  The event loop runs the timer that is due first; of two timers due at the same time,
  the one that was scheduled first (a timeout registered before an interval was last
  re-armed runs before that interval).
\<close>

definition next_timer :: "'a page_scheme \<Rightarrow> nat option" where
  "next_timer pg =
     (let act = filter (\<lambda>i. i < length (timers pg) \<and> active (timers pg ! i)) (schedule pg)
      in if act = [] then None else Some (arg_min_list (\<lambda>i. due (timers pg ! i)) act))"

section \<open>types/index.ts\<close>

datatype CaptchaProvider = GoogleV3 | CloudflareTurnstile

datatype CaptchaMode = Invisible | Checkbox

datatype CaptchaTheme = Light | Dark | Auto

text \<open>
  The props as the component destructures them, the defaults filled in
  (\<open>action = "default"\<close>, \<open>mode = "invisible"\<close>, \<open>theme = "light"\<close>,
  \<open>skip = false\<close>). \<open>onVerify\<close> is the host's callback: the model records its calls.
\<close>

record CaptchaProps =
  provider :: CaptchaProvider
  siteKey :: string
  action :: string
  mode :: CaptchaMode
  theme :: CaptchaTheme
  skip :: bool

definition default_props :: "CaptchaProvider \<Rightarrow> string \<Rightarrow> CaptchaProps" where
  "default_props pr key =
     \<lparr>provider = pr, siteKey = key, action = ''default'', mode = Invisible, theme = Light,
      skip = False\<rparr>"

text \<open>
  \<open>CaptchaRef\<close>, the type of the forwarded ref, declares \<open>reset\<close> only. \<open>CaptchaHandle\<close>
  declares \<open>execute\<close> and \<open>reset\<close>; the component does not use it.
\<close>

definition CaptchaRef :: "string list" where
  "CaptchaRef = [''reset'']"

definition CaptchaHandle :: "string list" where
  "CaptchaHandle = [''execute'', ''reset'']"

section \<open>components/Captcha.tsx\<close>

text \<open>
  What the component does to the outside, in the order it does it: calls of the host's
  \<open>onVerify\<close>, of the state setter, of \<open>console.error\<close> (its first argument), and of the
  two provider APIs. \<open>TurnstileExecute\<close> carries the value of \<open>widgetIdRef.current\<close> at
  the call, which may be \<open>null\<close>.
\<close>

datatype call =
    OnVerify string
  | SetIsInitialized bool
  | ConsoleError string
  | GrecaptchaExecute string string
  | TurnstileRender string CaptchaTheme string
  | TurnstileExecute "nat option"
  | TurnstileReset nat
  | TurnstileRemove nat

text \<open>
  One run of the \<open>useEffect\<close> callback: its local \<open>isMounted\<close> and \<open>timeoutId\<close>, and
  the value of \<open>isInitialized\<close> in the render it closes over (also the value React
  compares the next render's dependency with).
\<close>

record effect_run =
  isMounted :: bool
  timeoutId :: nat
  seenInitialized :: bool

text \<open>
  Who awaits a promise returned by \<open>grecaptcha.execute\<close>: \<open>initCaptcha\<close> of an effect
  run, or \<open>reset\<close>.
\<close>

datatype awaiter = InInit nat | InReset

text \<open>
  One mounted component instance on the page. \<open>inTree\<close>: it has not been unmounted.
  \<open>loadWaiters\<close>: the \<open>initCaptcha\<close> calls suspended at \<open>await load...Script()\<close>, with
  the promise awaited. \<open>executes\<close>: the promises returned by \<open>grecaptcha.execute\<close>, with
  their awaiter until settled. \<open>widgets\<close>: for every widget \<open>turnstile.render\<close> has made,
  the effect run whose closures it was given as callbacks; the widget identifier is the
  position. \<open>turnstileThrows\<close>: the Turnstile API raises when called.
\<close>

record component = page +
  props :: CaptchaProps
  inTree :: bool
  isInitialized :: bool
  widgetIdRef :: "nat option"
  effects :: "effect_run list"
  loadWaiters :: "(nat \<times> nat) list"
  executes :: "awaiter option list"
  widgets :: "nat list"
  turnstileThrows :: bool
  calls :: "call list"

definition record_call :: "call \<Rightarrow> component \<Rightarrow> component" where
  "record_call c st = st\<lparr>calls := calls st @ [c]\<rparr>"

definition onVerify :: "string \<Rightarrow> component \<Rightarrow> component" where
  "onVerify token st = record_call (OnVerify token) st"

definition console_error :: "string \<Rightarrow> component \<Rightarrow> component" where
  "console_error msg st = record_call (ConsoleError msg) st"

text \<open>
  The state setter of \<open>useState\<close>. React drops an update of a component that has been
  unmounted.
\<close>

definition setIsInitialized :: "bool \<Rightarrow> component \<Rightarrow> component" where
  "setIsInitialized v st =
     (let st1 = record_call (SetIsInitialized v) st
      in if inTree st1 then st1\<lparr>isInitialized := v\<rparr> else st1)"

text \<open>The \<open>isMounted\<close> variable of effect run \<open>e\<close>.\<close>

definition effect_mounted :: "nat \<Rightarrow> component \<Rightarrow> bool" where
  "effect_mounted e st = (e < length (effects st) \<and> isMounted (effects st ! e))"

text \<open>
  What the component renders: nothing when skipped, for Turnstile a container \<open>div\<close>
  (its \<open>minHeight\<close> is kept), nothing for Google.
\<close>

datatype element = Div string

definition render :: "CaptchaProps \<Rightarrow> element option" where
  "render ps =
     (if skip ps then None
      else if provider ps = CloudflareTurnstile
        then Some (Div (if mode ps = Checkbox then ''65px'' else ''0px''))
      else None)"

text \<open>
  \<open>widgetRef.current\<close> is the rendered \<open>div\<close> while the component is in the tree.
\<close>

definition widgetRef_current :: "component \<Rightarrow> bool" where
  "widgetRef_current st = (inTree st \<and> render (props st) \<noteq> None)"

subsection \<open>The provider APIs\<close>

text \<open>
  A call \<open>(window as any).turnstile.f(...)\<close>. It raises (first component) when
  \<open>window.turnstile\<close> is undefined, before anything is called, or when the API itself
  raises.
\<close>

definition turnstile_call :: "call \<Rightarrow> component \<Rightarrow> bool \<times> component" where
  "turnstile_call c st =
     (if turnstile st then (turnstileThrows st, record_call c st) else (True, st))"

text \<open>
  \<open>widgetIdRef.current = turnstile.render(widgetRef.current, {...})\<close>, called by effect
  run \<open>e\<close>.
\<close>

definition turnstile_render :: "nat \<Rightarrow> component \<Rightarrow> bool \<times> component" where
  "turnstile_render e st =
     (let ps = props st;
          c = TurnstileRender (siteKey ps) (theme ps)
                (if mode ps = Invisible then ''invisible'' else ''normal'')
      in case turnstile_call c st of
           (threw, st1) \<Rightarrow>
             if threw then (True, st1)
             else (False, st1\<lparr>widgetIdRef := Some (length (widgets st1)),
                               widgets := widgets st1 @ [e]\<rparr>))"

text \<open>\<open>grecaptcha.execute(siteKey, { action })\<close>: returns a promise, awaited by \<open>a\<close>.\<close>

definition grecaptcha_execute :: "awaiter \<Rightarrow> component \<Rightarrow> component" where
  "grecaptcha_execute a st =
     (record_call (GrecaptchaExecute (siteKey (props st)) (action (props st))) st)
       \<lparr>executes := executes st @ [Some a]\<rparr>"

subsection \<open>The imperative handle\<close>

text \<open>
  \<open>reset\<close>, up to its first \<open>await\<close>. For Turnstile in invisible mode it suspends on a
  100 ms timer; for Google on the promise of \<open>grecaptcha.execute\<close>.
\<close>

definition reset :: "component \<Rightarrow> component" where
  "reset st =
     (if skip (props st) then st
      else
        let st1 = setIsInitialized False st;
            st2 =
              (case widgetIdRef st1 of
                 Some w \<Rightarrow>
                   if provider (props st1) = CloudflareTurnstile \<and> turnstile st1 then
                     (case turnstile_call (TurnstileReset w) st1 of
                        (threw, st') \<Rightarrow>
                          if threw then console_error '' Failed to reset Turnstile:'' st'
                          else if mode (props st') = Invisible
                            then snd (setTimeout ResetDelay 100 st')
                          else st')
                   else st1
               | None \<Rightarrow> st1)
        in if provider (props st2) = GoogleV3 then
             (if grecaptcha st2 = GReady then grecaptcha_execute InReset st2 else st2)
           else st2)"

text \<open>\<open>reset\<close> after the 100 ms: \<open>turnstile.execute(widgetIdRef.current)\<close>.\<close>

definition reset_after_delay :: "component \<Rightarrow> component" where
  "reset_after_delay st =
     (case turnstile_call (TurnstileExecute (widgetIdRef st)) st of
        (threw, st') \<Rightarrow>
          if threw then console_error '' Failed to reset Turnstile:'' st' else st')"

text \<open>
  The object \<open>useImperativeHandle\<close> builds, by member name. Calling a member the object
  lacks raises a \<open>TypeError\<close>.
\<close>

definition handle :: "(string \<times> (component \<Rightarrow> component)) list" where
  "handle = [(''reset'', reset)]"

definition call_handle :: "string \<Rightarrow> component \<Rightarrow> error + component" where
  "call_handle name st =
     (case map_of handle name of
        None \<Rightarrow> Inl (Error (''ref.current.'' @ name @ '' is not a function''))
      | Some f \<Rightarrow> Inr (f st))"

subsection \<open>The effect\<close>

text \<open>
  \<open>initCaptcha\<close> of effect run \<open>e\<close>, up to \<open>await load...Script()\<close>.
\<close>

definition initCaptcha :: "nat \<Rightarrow> component \<Rightarrow> component" where
  "initCaptcha e st =
     (if skip (props st) then setIsInitialized True (onVerify ''skipped'' st)
      else if e < length (effects st) \<and> seenInitialized (effects st ! e) then st
      else
        (case provider (props st) of
           GoogleV3 \<Rightarrow>
             (let (p, st1) = loadGoogleScript (siteKey (props st)) st
              in st1\<lparr>loadWaiters := loadWaiters st1 @ [(p, e)]\<rparr>)
         | CloudflareTurnstile \<Rightarrow>
             (let (p, st1) = loadCloudflareScript st
              in st1\<lparr>loadWaiters := loadWaiters st1 @ [(p, e)]\<rparr>)))"

text \<open>
  \<open>initCaptcha\<close> resumed when the load promise has settled. A rejection is raised inside
  the \<open>try\<close> and caught. Otherwise \<open>if (!isMounted) return\<close>, then the 500 ms wait.
\<close>

definition after_load :: "nat \<Rightarrow> pstate \<Rightarrow> component \<Rightarrow> component" where
  "after_load e outcome st =
     (case outcome of
        Rejected err \<Rightarrow> console_error ''Captcha initialization failed:'' st
      | Fulfilled \<Rightarrow>
          if \<not> effect_mounted e st then st
          else snd (setTimeout (SettleAfterLoad e) 500 st)
      | Pending \<Rightarrow> st)"

text \<open>
  \<open>initCaptcha\<close> after the 500 ms. Google: \<open>grecaptcha.execute\<close>, awaited. Turnstile:
  render the widget and, in invisible mode, wait another 500 ms.
\<close>

definition settle_after_load :: "nat \<Rightarrow> component \<Rightarrow> component" where
  "settle_after_load e st =
     (case provider (props st) of
        GoogleV3 \<Rightarrow>
          if grecaptcha st = GReady then grecaptcha_execute (InInit e) st
          else console_error ''grecaptcha.execute not available'' st
      | CloudflareTurnstile \<Rightarrow>
          if \<not> turnstile st then console_error ''Cloudflare Turnstile not loaded'' st
          else if widgetRef_current st \<and> widgetIdRef st = None then
            (case turnstile_render e st of
               (threw, st1) \<Rightarrow>
                 if threw then console_error ''Captcha initialization failed:'' st1
                 else if mode (props st1) = Invisible
                   then snd (setTimeout (SettleBeforeExecute e) 500 st1)
                 else st1)
          else st)"

text \<open>The inner \<open>try\<close>: \<open>turnstile.execute(widgetIdRef.current)\<close>.\<close>

definition settle_before_execute :: "nat \<Rightarrow> component \<Rightarrow> component" where
  "settle_before_execute e st =
     (case turnstile_call (TurnstileExecute (widgetIdRef st)) st of
        (threw, st') \<Rightarrow>
          if threw then console_error '' Failed to execute invisible Turnstile:'' st' else st')"

text \<open>
  The promise number \<open>i\<close> of \<open>grecaptcha.execute\<close> is fulfilled with a token, or rejected:
  its awaiter resumes.
\<close>

definition execute_resolved :: "nat \<Rightarrow> string \<Rightarrow> component \<Rightarrow> component" where
  "execute_resolved i token st =
     (if i < length (executes st) then
        let st1 = st\<lparr>executes := (executes st)[i := None]\<rparr> in
        (case executes st ! i of
           Some (InInit e) \<Rightarrow>
             if effect_mounted e st1 then onVerify token (setIsInitialized True st1) else st1
         | Some InReset \<Rightarrow> onVerify token (setIsInitialized True st1)
         | None \<Rightarrow> st1)
      else st)"

definition execute_rejected :: "nat \<Rightarrow> component \<Rightarrow> component" where
  "execute_rejected i st =
     (if i < length (executes st) then
        let st1 = st\<lparr>executes := (executes st)[i := None]\<rparr> in
        (case executes st ! i of
           Some (InInit e) \<Rightarrow> console_error ''Captcha initialization failed:'' st1
         | Some InReset \<Rightarrow> console_error ''Failed to reset Google reCAPTCHA v3:'' st1
         | None \<Rightarrow> st1)
      else st)"

text \<open>
  The three callbacks given to \<open>turnstile.render\<close>, as the provider calls them for
  widget \<open>w\<close>. Only the first reads \<open>isMounted\<close>.
\<close>

definition widget_callback :: "nat \<Rightarrow> string \<Rightarrow> component \<Rightarrow> component" where
  "widget_callback w token st =
     (if w < length (widgets st) then
        (if \<not> effect_mounted (widgets st ! w) st then st
         else onVerify token (setIsInitialized True st))
      else st)"

definition widget_expired_callback :: "nat \<Rightarrow> component \<Rightarrow> component" where
  "widget_expired_callback w st = setIsInitialized False st"

definition widget_error_callback :: "nat \<Rightarrow> component \<Rightarrow> component" where
  "widget_error_callback w st = setIsInitialized False (console_error '' Turnstile error:'' st)"

text \<open>The effect callback: \<open>timeoutId = setTimeout(initCaptcha, 100)\<close>.\<close>

definition run_effect :: "component \<Rightarrow> component" where
  "run_effect st =
     (let (t, st1) = setTimeout (InitCaptcha (length (effects st))) 100 st
      in st1\<lparr>effects := effects st1 @
              [\<lparr>isMounted = True, timeoutId = t, seenInitialized = isInitialized st1\<rparr>]\<rparr>)"

text \<open>The cleanup function returned by effect run \<open>e\<close>.\<close>

definition cleanup :: "nat \<Rightarrow> component \<Rightarrow> component" where
  "cleanup e st =
     (if e < length (effects st) then
        let st1 = st\<lparr>effects := (effects st)[e := (effects st ! e)\<lparr>isMounted := False\<rparr>]\<rparr>;
            st2 = clearTimer (timeoutId (effects st ! e)) st1
        in (case widgetIdRef st2 of
              Some w \<Rightarrow>
                if provider (props st2) = CloudflareTurnstile \<and> turnstile st2 then
                  (case turnstile_call (TurnstileRemove w) st2 of
                     (threw, st3) \<Rightarrow>
                       if threw then console_error ''Failed to remove Turnstile widget:'' st3
                       else st3\<lparr>widgetIdRef := None\<rparr>)
                else st2
            | None \<Rightarrow> st2)
      else st)"

section \<open>React and the event loop\<close>

text \<open>
  The dependency list of the effect is
  \<open>[provider, siteKey, action, mode, theme, skip, isInitialized, onVerify]\<close>. The props
  of an instance and the host's \<open>onVerify\<close> are taken as fixed, so the one dependency
  that changes is \<open>isInitialized\<close>. After a task in which the state has changed, React
  renders the component again; as the dependency differs from the one of the last effect
  run, it calls that run's cleanup and then the effect callback anew.
\<close>

definition rerender :: "component \<Rightarrow> component" where
  "rerender st =
     (if inTree st \<and> effects st \<noteq> [] \<and> seenInitialized (last (effects st)) \<noteq> isInitialized st
      then run_effect (cleanup (length (effects st) - 1) st) else st)"

text \<open>Mounting: the first render (state \<open>false\<close>, refs \<open>null\<close>) and the first effect run.\<close>

definition mount :: "CaptchaProps \<Rightarrow> page \<Rightarrow> component" where
  "mount ps pg =
     run_effect
       (page.extend pg
          \<lparr>props = ps, inTree = True, isInitialized = False, widgetIdRef = None,
           effects = [], loadWaiters = [], executes = [], widgets = [],
           turnstileThrows = False, calls = []\<rparr>)"

text \<open>Unmounting: the cleanup of the last effect run.\<close>

definition unmount :: "component \<Rightarrow> component" where
  "unmount st = (cleanup (length (effects st) - 1) st)\<lparr>inTree := False\<rparr>"

text \<open>
  Microtasks: every \<open>initCaptcha\<close> suspended on a load promise that has settled resumes.
\<close>

definition settled :: "nat \<Rightarrow> 'a page_scheme \<Rightarrow> bool" where
  "settled p pg = (p < length (promises pg) \<and> promises pg ! p \<noteq> Pending)"

definition run_waiters :: "component \<Rightarrow> component" where
  "run_waiters st =
     (let ready = filter (\<lambda>(p, e). settled p st) (loadWaiters st);
          st1 = st\<lparr>loadWaiters := filter (\<lambda>(p, e). \<not> settled p st) (loadWaiters st)\<rparr>
      in fold (\<lambda>(p, e). after_load e (promises st ! p)) ready st1)"

definition after_task :: "component \<Rightarrow> component" where
  "after_task st = rerender (run_waiters st)"

text \<open>The component's timer callbacks.\<close>

definition component_callback :: "callback \<Rightarrow> component \<Rightarrow> component" where
  "component_callback f st =
     (case f of
        InitCaptcha e \<Rightarrow> initCaptcha e st
      | SettleAfterLoad e \<Rightarrow> settle_after_load e st
      | SettleBeforeExecute e \<Rightarrow> settle_before_execute e st
      | ResetDelay \<Rightarrow> reset_after_delay st
      | _ \<Rightarrow> st)"

text \<open>Timer \<open>i\<close> fires: its callback runs, then the microtasks, then React.\<close>

definition timer_fires :: "nat \<Rightarrow> component \<Rightarrow> component" where
  "timer_fires i st =
     (if i < length (timers st) \<and> active (timers st ! i)
      then after_task (component_callback (cb (timers st ! i)) (fire_timer i st)) else st)"

text \<open>
  What can happen next. \<open>TimerFires\<close>: the event loop runs the timer due first (the clock
  jumps to its due time). \<open>Wait d\<close>: \<open>d\<close> ms pass in which no timer is due. The others
  happen at the current time: the browser dispatches a script's load or error event, a
  provider global appears or disappears, the provider settles an \<open>execute\<close> promise or
  calls a widget callback, the host calls \<open>reset\<close> through the ref, the host unmounts the
  component. An event that cannot happen in the state gives \<open>None\<close>.
\<close>

datatype event =
    TimerFires
  | Wait nat
  | ScriptLoads nat
  | ScriptFails nat
  | GrecaptchaBecomes gapi
  | TurnstileBecomes bool
  | TurnstileThrowing bool
  | ExecuteResolves nat string
  | ExecuteRejects nat
  | WidgetSuccess nat string
  | WidgetExpired nat
  | WidgetError nat
  | HostReset
  | Unmount

definition no_timer_before :: "nat \<Rightarrow> 'a page_scheme \<Rightarrow> bool" where
  "no_timer_before t pg = list_all (\<lambda>x. if active x then t \<le> due x else True) (timers pg)"

fun step :: "event \<Rightarrow> component \<Rightarrow> component option" where
  "step TimerFires st =
     (case next_timer st of None \<Rightarrow> None | Some i \<Rightarrow> Some (timer_fires i st))"
| "step (Wait d) st =
     (if no_timer_before (now st + d) st then Some (st\<lparr>now := now st + d\<rparr>) else None)"
| "step (ScriptLoads k) st =
     (if k < length (scripts st) \<and> \<not> fired (scripts st ! k)
      then Some (after_task (script_load k st)) else None)"
| "step (ScriptFails k) st =
     (if k < length (scripts st) \<and> \<not> fired (scripts st ! k)
      then Some (after_task (script_error k st)) else None)"
| "step (GrecaptchaBecomes g) st = Some (st\<lparr>grecaptcha := g\<rparr>)"
| "step (TurnstileBecomes b) st = Some (st\<lparr>turnstile := b\<rparr>)"
| "step (TurnstileThrowing b) st = Some (st\<lparr>turnstileThrows := b\<rparr>)"
| "step (ExecuteResolves i token) st =
     (if i < length (executes st) \<and> executes st ! i \<noteq> None
      then Some (rerender (execute_resolved i token st)) else None)"
| "step (ExecuteRejects i) st =
     (if i < length (executes st) \<and> executes st ! i \<noteq> None
      then Some (rerender (execute_rejected i st)) else None)"
| "step (WidgetSuccess w token) st =
     (if w < length (widgets st) then Some (rerender (widget_callback w token st)) else None)"
| "step (WidgetExpired w) st =
     (if w < length (widgets st) then Some (rerender (widget_expired_callback w st)) else None)"
| "step (WidgetError w) st =
     (if w < length (widgets st) then Some (rerender (widget_error_callback w st)) else None)"
| "step HostReset st = (if inTree st then Some (rerender (reset st)) else None)"
| "step Unmount st = (if inTree st then Some (unmount st) else None)"

fun run :: "event list \<Rightarrow> component \<Rightarrow> component option" where
  "run [] st = Some st"
| "run (ev # evs) st = (case step ev st of None \<Rightarrow> None | Some st' \<Rightarrow> run evs st')"

text \<open>The calls of \<open>onVerify\<close> and of \<open>grecaptcha.execute\<close> among the recorded calls.\<close>

fun is_onVerify :: "call \<Rightarrow> bool" where
  "is_onVerify (OnVerify token) = True"
| "is_onVerify c = False"

fun is_grecaptcha_execute :: "call \<Rightarrow> bool" where
  "is_grecaptcha_execute (GrecaptchaExecute k a) = True"
| "is_grecaptcha_execute c = False"

section \<open>Predicates on states\<close>

text \<open>
  What a poll leaves alone while the API object is not ready: everything of the page but
  the clock and the due time and activity of the polling timer \<open>iv\<close> itself.
\<close>

definition same_but_clock :: "'a page_scheme \<Rightarrow> 'a page_scheme \<Rightarrow> nat \<Rightarrow> bool" where
  "same_but_clock pg pg' iv \<longleftrightarrow>
     promises pg' = promises pg \<and> grecaptcha pg' = grecaptcha pg \<and> turnstile pg' = turnstile pg \<and>
     scripts pg' = scripts pg \<and> scriptLoaded pg' = scriptLoaded pg \<and>
     scriptLoading pg' = scriptLoading pg \<and> loadPromise pg' = loadPromise pg \<and>
     cfScriptLoaded pg' = cfScriptLoaded pg \<and> cfScriptLoading pg' = cfScriptLoading pg \<and>
     cfLoadPromise pg' = cfLoadPromise pg \<and>
     length (timers pg') = length (timers pg) \<and>
     cb (timers pg' ! iv) = cb (timers pg ! iv) \<and>
     (\<forall>j. j \<noteq> iv \<longrightarrow> timers pg' ! j = timers pg ! j)"

text \<open>
  The state is between two tasks: React has rendered the current state (the last effect
  run has seen the current \<open>isInitialized\<close>) and no suspended \<open>initCaptcha\<close> can resume.
\<close>

definition idle :: "component \<Rightarrow> bool" where
  "idle st =
     (effects st \<noteq> [] \<and> seenInitialized (last (effects st)) = isInitialized st \<and>
      list_all (\<lambda>(p, e). \<not> settled p st) (loadWaiters st))"

fun is_InitCaptcha :: "callback \<Rightarrow> bool" where
  "is_InitCaptcha (InitCaptcha e) = True"
| "is_InitCaptcha f = False"

text \<open>No call of \<open>reset\<close> is suspended at \<open>await grecaptcha.execute(...)\<close>.\<close>

definition no_reset_in_flight :: "component \<Rightarrow> bool" where
  "no_reset_in_flight st = list_all (\<lambda>a. a \<noteq> Some InReset) (executes st)"

text \<open>
  As React leaves them: every effect run but the last has been cleaned up, and the only
  \<open>setTimeout(initCaptcha, 100)\<close> that can still fire is the one of the last run.
\<close>

definition one_live_run :: "component \<Rightarrow> bool" where
  "one_live_run st =
     (effects st \<noteq> [] \<and>
      list_all (\<lambda>r. \<not> isMounted r) (butlast (effects st)) \<and>
      list_all (\<lambda>i. if active (timers st ! i) \<and> is_InitCaptcha (cb (timers st ! i))
                     then i = timeoutId (last (effects st)) else True)
        [0 ..< length (timers st)])"

text \<open>
  Mid-initialization: \<open>initCaptcha\<close> of the last effect run is suspended at
  \<open>await load...Script()\<close> and the promise has not settled.
\<close>

definition awaiting_load :: "component \<Rightarrow> bool" where
  "awaiting_load st =
     list_ex (\<lambda>(p, e). Suc e = length (effects st) \<and> \<not> settled p st) (loadWaiters st)"

text \<open>
  The component has been unmounted and nothing of it can call \<open>onVerify\<close> any more:
  every effect run has been cleaned up, no \<open>setTimeout(initCaptcha, 100)\<close> can fire, no
  \<open>reset\<close> awaits \<open>grecaptcha.execute\<close>.
\<close>

definition dead :: "component \<Rightarrow> bool" where
  "dead st =
     (\<not> inTree st \<and>
      list_all (\<lambda>r. \<not> isMounted r) (effects st) \<and>
      list_all (\<lambda>t. \<not> (active t \<and> is_InitCaptcha (cb t))) (timers st) \<and>
      list_all (\<lambda>a. a \<noteq> Some InReset) (executes st))"

text \<open>
  A page on which no \<open>setTimeout(initCaptcha, 100)\<close> is waiting: the page before the
  component is mounted.
\<close>

definition no_init_timer :: "'a page_scheme \<Rightarrow> bool" where
  "no_init_timer pg = list_all (\<lambda>t. \<not> (active t \<and> is_InitCaptcha (cb t))) (timers pg)"

text \<open>Among the timers, only number \<open>c\<close> can still call \<open>initCaptcha\<close>.\<close>

definition init_only :: "nat \<Rightarrow> timer list \<Rightarrow> bool" where
  "init_only c ts = (\<forall>i < length ts. active (ts ! i) \<and> is_InitCaptcha (cb (ts ! i)) \<longrightarrow> i = c)"

text \<open>
  Two relations between the states before and after a piece of code. \<open>calm\<close>: it starts
  and cleans up no effect run and registers no \<open>initCaptcha\<close> timer. \<open>still\<close>: it
  settles no promise and suspends no \<open>initCaptcha\<close>.
\<close>

definition calm :: "component \<Rightarrow> component \<Rightarrow> bool" where
  "calm st st' =
     (effects st' = effects st \<and> inTree st' = inTree st \<and>
      (\<forall>c. init_only c (timers st) \<longrightarrow> init_only c (timers st')))"

definition still :: "component \<Rightarrow> component \<Rightarrow> bool" where
  "still st st' = (promises st' = promises st \<and> loadWaiters st' = loadWaiters st)"

definition waiters_pending :: "component \<Rightarrow> bool" where
  "waiters_pending st = list_all (\<lambda>(p, e). \<not> settled p st) (loadWaiters st)"

text \<open>What holds of an instance between two tasks, from its mount on.\<close>

definition well_formed :: "component \<Rightarrow> bool" where
  "well_formed st =
     (one_live_run st \<and> waiters_pending st \<and>
      (inTree st \<longrightarrow> seenInitialized (last (effects st)) = isInitialized st))"

section \<open>Scenarios\<close>

text \<open>A Google instance with \<open>skip\<close> set.\<close>

definition skipped_props :: CaptchaProps where
  "skipped_props = (default_props GoogleV3 ''key'')\<lparr>skip := True\<rparr>"

text \<open>
  A Google instance from mount to its first verification, on a fresh page. At 100 ms
  \<open>initCaptcha\<close> runs and appends the script; the script loads and defines
  \<open>grecaptcha\<close> with \<open>execute\<close>; the poll at 200 ms fulfils the load promise; at 700 ms
  \<open>grecaptcha.execute\<close> is called; the provider answers with a token; the effect runs
  again and its \<open>initCaptcha\<close> at 800 ms returns at once.
\<close>

definition google_verified :: "event list" where
  "google_verified =
     [TimerFires, ScriptLoads 0, GrecaptchaBecomes GReady, TimerFires, TimerFires,
      ExecuteResolves 0 ''token-1'', TimerFires]"

text \<open>
  A Turnstile instance in invisible mode from mount to the first \<open>turnstile.execute\<close>, on
  a fresh page: \<open>initCaptcha\<close> at 100 ms, the script loads and defines \<open>turnstile\<close>, the
  poll at 200 ms, the widget is rendered at 700 ms, \<open>execute\<close> is called at 1200 ms. The
  provider has not answered yet.
\<close>

definition turnstile_rendered :: "event list" where
  "turnstile_rendered =
     [TimerFires, TurnstileBecomes True, ScriptLoads 0, TimerFires, TimerFires, TimerFires]"

section \<open>The definitions, for evaluation\<close>

lemmas page_defs = new_promise_def promise_resolve_def settle_def resolve_def reject_def promise_state_def
  setTimeout_def setInterval_def clearTimer_def existingScript_def appendScript_def google_url_def
  loadGoogleScript_def google_onload_def google_checkReady_def google_timeout_def google_onerror_def
  cloudflare_url_def loadCloudflareScript_def cloudflare_onload_def cloudflare_checkReady_def
  cloudflare_timeout_def cloudflare_onerror_def script_load_def script_error_def fresh_page_def
  rearm_def loader_callback_def fire_timer_def next_timer_def

lemmas comp_defs = default_props_def record_call_def onVerify_def console_error_def setIsInitialized_def
  effect_mounted_def render_def widgetRef_current_def turnstile_call_def turnstile_render_def
  grecaptcha_execute_def reset_def reset_after_delay_def initCaptcha_def after_load_def
  settle_after_load_def settle_before_execute_def execute_resolved_def execute_rejected_def
  widget_callback_def widget_expired_callback_def widget_error_callback_def run_effect_def
  cleanup_def rerender_def mount_def unmount_def settled_def run_waiters_def after_task_def
  component_callback_def timer_fires_def no_timer_before_def page.extend_def

section \<open>The loaders: lemmas\<close>

lemma google_load_starts:
  assumes "grecaptcha pg = GAbsent" "\<not> (scriptLoading pg \<and> loadPromise pg \<noteq> None)"
  shows "loadGoogleScript key pg =
     (length (promises pg),
      pg\<lparr>scriptLoading := True, promises := promises pg @ [Pending],
         scripts := scripts pg @ [\<lparr>src = google_url key, owner = GoogleLoader (length (promises pg)), fired = False\<rparr>],
         loadPromise := Some (length (promises pg))\<rparr>)"
  using assms by (auto simp: loadGoogleScript_def new_promise_def appendScript_def Let_def)

lemma cloudflare_load_starts:
  assumes "\<not> turnstile pg" "\<not> (cfScriptLoading pg \<and> cfLoadPromise pg \<noteq> None)"
  shows "loadCloudflareScript pg =
     (length (promises pg),
      pg\<lparr>cfScriptLoading := True, promises := promises pg @ [Pending],
         scripts := scripts pg @ [\<lparr>src = cloudflare_url, owner = CloudflareLoader (length (promises pg)), fired = False\<rparr>],
         cfLoadPromise := Some (length (promises pg))\<rparr>)"
  using assms by (auto simp: loadCloudflareScript_def new_promise_def appendScript_def Let_def)

lemma google_poll_once:
  assumes "cb (timers pg ! iv) = GCheckReady p" "grecaptcha pg \<noteq> GReady"
  shows "same_but_clock pg (fire_timer iv pg) iv"
  using assms
  by (auto simp: same_but_clock_def fire_timer_def rearm_def loader_callback_def
      google_checkReady_def Let_def split: option.splits)

lemma cloudflare_poll_once:
  assumes "cb (timers pg ! iv) = CfCheckReady p" "\<not> turnstile pg"
  shows "same_but_clock pg (fire_timer iv pg) iv"
  using assms
  by (auto simp: same_but_clock_def fire_timer_def rearm_def loader_callback_def
      cloudflare_checkReady_def Let_def split: option.splits)

lemma same_but_clock_trans:
  "same_but_clock a b iv \<Longrightarrow> same_but_clock b c iv \<Longrightarrow> same_but_clock a c iv"
  by (simp add: same_but_clock_def)

lemma same_but_clock_refl: "same_but_clock a a iv"
  by (simp add: same_but_clock_def)

lemma google_polls:
  assumes "cb (timers pg ! iv) = GCheckReady p" "grecaptcha pg \<noteq> GReady"
  shows "same_but_clock pg ((fire_timer iv ^^ n) pg) iv"
proof (induction n)
  case 0
  show ?case by (simp add: same_but_clock_refl)
next
  case (Suc n)
  let ?q = "(fire_timer iv ^^ n) pg"
  from Suc have "cb (timers ?q ! iv) = GCheckReady p" "grecaptcha ?q \<noteq> GReady"
    using assms by (simp_all add: same_but_clock_def)
  then have "same_but_clock ?q (fire_timer iv ?q) iv" by (rule google_poll_once)
  with Suc show ?case by (auto intro: same_but_clock_trans)
qed

lemma cloudflare_polls:
  assumes "cb (timers pg ! iv) = CfCheckReady p" "\<not> turnstile pg"
  shows "same_but_clock pg ((fire_timer iv ^^ n) pg) iv"
proof (induction n)
  case 0
  show ?case by (simp add: same_but_clock_refl)
next
  case (Suc n)
  let ?q = "(fire_timer iv ^^ n) pg"
  from Suc have "cb (timers ?q ! iv) = CfCheckReady p" "\<not> turnstile ?q"
    using assms by (simp_all add: same_but_clock_def)
  then have "same_but_clock ?q (fire_timer iv ?q) iv" by (rule cloudflare_poll_once)
  with Suc show ?case by (auto intro: same_but_clock_trans)
qed


lemma google_onload_state:
  assumes "grecaptcha pg = GAbsent" "\<not> (scriptLoading pg \<and> loadPromise pg \<noteq> None)"
    and "loadGoogleScript key pg = (p, pg1)"
    and "pg2 = script_load (length (scripts pg)) pg1"
  shows "p = length (promises pg)"
    and "promises pg2 = promises pg @ [Pending]"
    and "timers pg2 = timers pg @
           [\<lparr>due = now pg + 100, period = Some 100, cb = GCheckReady p, active = True\<rparr>,
            \<lparr>due = now pg + 10000, period = None, cb = GLoadTimeout p (length (timers pg)), active = True\<rparr>]"
    and "scripts pg2 = scripts pg @ [\<lparr>src = google_url key, owner = GoogleLoader p, fired = True\<rparr>]"
    and "scriptLoaded pg2" and "\<not> scriptLoading pg2" and "loadPromise pg2 = Some p"
    and "grecaptcha pg2 = GAbsent"
  using assms(1,3,4) unfolding google_load_starts[OF assms(1,2)]
  by (auto simp: script_load_def google_onload_def setInterval_def setTimeout_def Let_def)

lemma google_polled_state:
  assumes "timers pg2 = ts @
           [\<lparr>due = d1, period = Some 100, cb = GCheckReady p, active = True\<rparr>,
            \<lparr>due = d2, period = None, cb = GLoadTimeout p (length ts), active = True\<rparr>]"
    and "grecaptcha pg2 \<noteq> GReady"
    and "pg3 = (fire_timer (length ts) ^^ n) pg2"
  shows "same_but_clock pg2 pg3 (length ts)"
    and "timers pg3 ! Suc (length ts) = \<lparr>due = d2, period = None, cb = GLoadTimeout p (length ts), active = True\<rparr>"
    and "Suc (length ts) < length (timers pg3)"
proof -
  have c: "cb (timers pg2 ! length ts) = GCheckReady p" using assms(1) by simp
  show s: "same_but_clock pg2 pg3 (length ts)"
    unfolding assms(3) using c assms(2) by (rule google_polls)
  from s have "timers pg3 ! Suc (length ts) = timers pg2 ! Suc (length ts)"
    by (simp add: same_but_clock_def)
  then show "timers pg3 ! Suc (length ts) = \<lparr>due = d2, period = None, cb = GLoadTimeout p (length ts), active = True\<rparr>"
    using assms(1) by (simp add: nth_append)
  from s have "length (timers pg3) = length (timers pg2)" by (simp add: same_but_clock_def)
  then show "Suc (length ts) < length (timers pg3)" using assms(1) by simp
qed

lemma google_timeout_fires:
  assumes "timers pg3 ! i = \<lparr>due = d2, period = None, cb = GLoadTimeout p iv, active = True\<rparr>"
    and "i < length (timers pg3)"
  shows "promises (fire_timer i pg3) =
           (if p < length (promises pg3) \<and> promises pg3 ! p = Pending
            then (promises pg3)[p := (if grecaptcha pg3 \<noteq> GAbsent then Fulfilled
                                      else Rejected (Error ''Google reCAPTCHA failed to load''))]
            else promises pg3)"
    and "grecaptcha (fire_timer i pg3) = grecaptcha pg3"
    and "scripts (fire_timer i pg3) = scripts pg3"
    and "scriptLoaded (fire_timer i pg3) = scriptLoaded pg3"
    and "scriptLoading (fire_timer i pg3) = scriptLoading pg3"
    and "loadPromise (fire_timer i pg3) = loadPromise pg3"
  using assms
  by (auto simp: fire_timer_def rearm_def loader_callback_def google_timeout_def clearTimer_def
      resolve_def reject_def settle_def Let_def)


lemma cloudflare_onload_state:
  assumes "\<not> turnstile pg" "\<not> (cfScriptLoading pg \<and> cfLoadPromise pg \<noteq> None)"
    and "loadCloudflareScript pg = (p, pg1)"
    and "pg2 = script_load (length (scripts pg)) pg1"
  shows "p = length (promises pg)"
    and "promises pg2 = promises pg @ [Pending]"
    and "timers pg2 = timers pg @
           [\<lparr>due = now pg + 100, period = Some 100, cb = CfCheckReady p, active = True\<rparr>,
            \<lparr>due = now pg + 10000, period = None, cb = CfLoadTimeout p (length (timers pg)), active = True\<rparr>]"
    and "scripts pg2 = scripts pg @ [\<lparr>src = cloudflare_url, owner = CloudflareLoader p, fired = True\<rparr>]"
    and "cfScriptLoaded pg2" and "\<not> cfScriptLoading pg2" and "cfLoadPromise pg2 = Some p"
    and "\<not> turnstile pg2"
  using assms(1,3,4) unfolding cloudflare_load_starts[OF assms(1,2)]
  by (auto simp: script_load_def cloudflare_onload_def setInterval_def setTimeout_def Let_def)

lemma cloudflare_polled_state:
  assumes "timers pg2 = ts @
           [\<lparr>due = d1, period = Some 100, cb = CfCheckReady p, active = True\<rparr>,
            \<lparr>due = d2, period = None, cb = CfLoadTimeout p (length ts), active = True\<rparr>]"
    and "\<not> turnstile pg2"
    and "pg3 = (fire_timer (length ts) ^^ n) pg2"
  shows "same_but_clock pg2 pg3 (length ts)"
    and "timers pg3 ! Suc (length ts) = \<lparr>due = d2, period = None, cb = CfLoadTimeout p (length ts), active = True\<rparr>"
    and "Suc (length ts) < length (timers pg3)"
proof -
  have c: "cb (timers pg2 ! length ts) = CfCheckReady p" using assms(1) by simp
  show s: "same_but_clock pg2 pg3 (length ts)"
    unfolding assms(3) using c assms(2) by (rule cloudflare_polls)
  from s have "timers pg3 ! Suc (length ts) = timers pg2 ! Suc (length ts)"
    by (simp add: same_but_clock_def)
  then show "timers pg3 ! Suc (length ts) = \<lparr>due = d2, period = None, cb = CfLoadTimeout p (length ts), active = True\<rparr>"
    using assms(1) by (simp add: nth_append)
  from s have "length (timers pg3) = length (timers pg2)" by (simp add: same_but_clock_def)
  then show "Suc (length ts) < length (timers pg3)" using assms(1) by simp
qed

lemma cloudflare_timeout_fires:
  assumes "timers pg3 ! i = \<lparr>due = d2, period = None, cb = CfLoadTimeout p iv, active = True\<rparr>"
    and "i < length (timers pg3)"
  shows "promises (fire_timer i pg3) =
           (if p < length (promises pg3) \<and> promises pg3 ! p = Pending
            then (promises pg3)[p := (if turnstile pg3 then Fulfilled
                                      else Rejected (Error ''Cloudflare Turnstile failed to load''))]
            else promises pg3)"
    and "turnstile (fire_timer i pg3) = turnstile pg3"
    and "scripts (fire_timer i pg3) = scripts pg3"
    and "cfScriptLoaded (fire_timer i pg3) = cfScriptLoaded pg3"
    and "cfScriptLoading (fire_timer i pg3) = cfScriptLoading pg3"
    and "cfLoadPromise (fire_timer i pg3) = cfLoadPromise pg3"
  using assms
  by (auto simp: fire_timer_def rearm_def loader_callback_def cloudflare_timeout_def clearTimer_def
      resolve_def reject_def settle_def Let_def)

text \<open>The state after: a load that starts a fetch, the script's load event, n polls, the timeout.\<close>

lemma google_timed_out:
  assumes a: "grecaptcha pg = GAbsent" "\<not> (scriptLoading pg \<and> loadPromise pg \<noteq> None)"
    and l: "loadGoogleScript key pg = (p, pg1)"
    and "pg4 = fire_timer (Suc (length (timers pg)))
                 ((fire_timer (length (timers pg)) ^^ n) (script_load (length (scripts pg)) pg1))"
  shows "promises pg4 = promises pg @ [Rejected (Error ''Google reCAPTCHA failed to load'')]"
    and "p = length (promises pg)"
    and "scripts pg4 = scripts pg @ [\<lparr>src = google_url key, owner = GoogleLoader p, fired = True\<rparr>]"
    and "scriptLoaded pg4" and "\<not> scriptLoading pg4" and "loadPromise pg4 = Some p"
    and "grecaptcha pg4 = GAbsent"
proof -
  define pg2 where "pg2 = script_load (length (scripts pg)) pg1"
  define pg3 where "pg3 = (fire_timer (length (timers pg)) ^^ n) pg2"
  note o = google_onload_state[OF a l pg2_def]
  have g: "grecaptcha pg2 \<noteq> GReady" using o(8) by simp
  note q = google_polled_state[OF o(3) g pg3_def]
  note f = google_timeout_fires[OF q(2) q(3)]
  have pg4: "pg4 = fire_timer (Suc (length (timers pg))) pg3"
    using assms(4) by (simp add: pg3_def pg2_def)
  have same: "promises pg3 = promises pg @ [Pending]" "grecaptcha pg3 = GAbsent"
    "scripts pg3 = scripts pg2" "scriptLoaded pg3" "\<not> scriptLoading pg3" "loadPromise pg3 = Some p"
    using q(1) o by (simp_all add: same_but_clock_def)
  show "p = length (promises pg)" by (rule o(1))
  show "promises pg4 = promises pg @ [Rejected (Error ''Google reCAPTCHA failed to load'')]"
    unfolding pg4 f(1) using same o(1) by simp
  show "scripts pg4 = scripts pg @ [\<lparr>src = google_url key, owner = GoogleLoader p, fired = True\<rparr>]"
    unfolding pg4 f(3) using same o(4) by simp
  show "scriptLoaded pg4" unfolding pg4 f(4) by (rule same)
  show "\<not> scriptLoading pg4" unfolding pg4 f(5) by (rule same)
  show "loadPromise pg4 = Some p" unfolding pg4 f(6) by (rule same)
  show "grecaptcha pg4 = GAbsent" unfolding pg4 f(2) by (rule same)
qed

lemma cloudflare_timed_out:
  assumes a: "\<not> turnstile pg" "\<not> (cfScriptLoading pg \<and> cfLoadPromise pg \<noteq> None)"
    and l: "loadCloudflareScript pg = (p, pg1)"
    and "pg4 = fire_timer (Suc (length (timers pg)))
                 ((fire_timer (length (timers pg)) ^^ n) (script_load (length (scripts pg)) pg1))"
  shows "promises pg4 = promises pg @ [Rejected (Error ''Cloudflare Turnstile failed to load'')]"
    and "p = length (promises pg)"
    and "scripts pg4 = scripts pg @ [\<lparr>src = cloudflare_url, owner = CloudflareLoader p, fired = True\<rparr>]"
    and "cfScriptLoaded pg4" and "\<not> cfScriptLoading pg4" and "cfLoadPromise pg4 = Some p"
    and "\<not> turnstile pg4"
proof -
  define pg2 where "pg2 = script_load (length (scripts pg)) pg1"
  define pg3 where "pg3 = (fire_timer (length (timers pg)) ^^ n) pg2"
  note o = cloudflare_onload_state[OF a l pg2_def]
  note q = cloudflare_polled_state[OF o(3) o(8) pg3_def]
  note f = cloudflare_timeout_fires[OF q(2) q(3)]
  have pg4: "pg4 = fire_timer (Suc (length (timers pg))) pg3"
    using assms(4) by (simp add: pg3_def pg2_def)
  have same: "promises pg3 = promises pg @ [Pending]" "\<not> turnstile pg3"
    "scripts pg3 = scripts pg2" "cfScriptLoaded pg3" "\<not> cfScriptLoading pg3" "cfLoadPromise pg3 = Some p"
    using q(1) o by (simp_all add: same_but_clock_def)
  show "p = length (promises pg)" by (rule o(1))
  show "promises pg4 = promises pg @ [Rejected (Error ''Cloudflare Turnstile failed to load'')]"
    unfolding pg4 f(1) using same o(1) by simp
  show "scripts pg4 = scripts pg @ [\<lparr>src = cloudflare_url, owner = CloudflareLoader p, fired = True\<rparr>]"
    unfolding pg4 f(3) using same o(4) by simp
  show "cfScriptLoaded pg4" unfolding pg4 f(4) by (rule same)
  show "\<not> cfScriptLoading pg4" unfolding pg4 f(5) by (rule same)
  show "cfLoadPromise pg4 = Some p" unfolding pg4 f(6) by (rule same)
  show "\<not> turnstile pg4" unfolding pg4 f(2) by (rule same)
qed








lemma google_reload_after_timeout:
  assumes a: "grecaptcha pg = GAbsent" "\<not> (scriptLoading pg \<and> loadPromise pg \<noteq> None)"
  shows "(let (p, pg1) = loadGoogleScript key pg;
              k = length (scripts pg); poll = length (timers pg);
              pg4 = fire_timer (Suc poll) ((fire_timer poll ^^ n) (script_load k pg1));
              (p', pg5) = loadGoogleScript key pg4
          in promise_state p pg4 = Some (Rejected (Error ''Google reCAPTCHA failed to load'')) \<and>
             scriptLoaded pg4 \<and> \<not> scriptLoading pg4 \<and> loadPromise pg4 = Some p \<and>
             grecaptcha pg4 = GAbsent \<and>
             p' \<noteq> p \<and> promise_state p' pg5 = Some Pending \<and> loadPromise pg5 = Some p' \<and>
             scripts pg5 = scripts pg @
               [\<lparr>src = google_url key, owner = GoogleLoader p, fired = True\<rparr>,
                \<lparr>src = google_url key, owner = GoogleLoader p', fired = False\<rparr>])"
proof -
  obtain p pg1 where l: "loadGoogleScript key pg = (p, pg1)" by (cases "loadGoogleScript key pg")
  define pg4 where "pg4 = fire_timer (Suc (length (timers pg)))
                 ((fire_timer (length (timers pg)) ^^ n) (script_load (length (scripts pg)) pg1))"
  note t = google_timed_out[OF a l pg4_def]
  have b: "\<not> (scriptLoading pg4 \<and> loadPromise pg4 \<noteq> None)" using t(5) by simp
  note r = google_load_starts[OF t(7) b, of key]
  have p: "p = length (promises pg)" by (rule t(2))
  show ?thesis
    unfolding l Let_def prod.case pg4_def[symmetric] r
    using t by (simp add: promise_state_def p nth_append)
qed

lemma cloudflare_reload_after_timeout:
  assumes a: "\<not> turnstile pg" "\<not> (cfScriptLoading pg \<and> cfLoadPromise pg \<noteq> None)"
  shows "(let (p, pg1) = loadCloudflareScript pg;
              k = length (scripts pg); poll = length (timers pg);
              pg4 = fire_timer (Suc poll) ((fire_timer poll ^^ n) (script_load k pg1));
              (p', pg5) = loadCloudflareScript pg4
          in promise_state p pg4 = Some (Rejected (Error ''Cloudflare Turnstile failed to load'')) \<and>
             cfScriptLoaded pg4 \<and> \<not> cfScriptLoading pg4 \<and> cfLoadPromise pg4 = Some p \<and>
             \<not> turnstile pg4 \<and>
             p' \<noteq> p \<and> promise_state p' pg5 = Some Pending \<and> cfLoadPromise pg5 = Some p' \<and>
             scripts pg5 = scripts pg @
               [\<lparr>src = cloudflare_url, owner = CloudflareLoader p, fired = True\<rparr>,
                \<lparr>src = cloudflare_url, owner = CloudflareLoader p', fired = False\<rparr>])"
proof -
  obtain p pg1 where l: "loadCloudflareScript pg = (p, pg1)" by (cases "loadCloudflareScript pg")
  define pg4 where "pg4 = fire_timer (Suc (length (timers pg)))
                 ((fire_timer (length (timers pg)) ^^ n) (script_load (length (scripts pg)) pg1))"
  note t = cloudflare_timed_out[OF a l pg4_def]
  have b: "\<not> (cfScriptLoading pg4 \<and> cfLoadPromise pg4 \<noteq> None)" using t(5) by simp
  note r = cloudflare_load_starts[OF t(7) b]
  have p: "p = length (promises pg)" by (rule t(2))
  show ?thesis
    unfolding l Let_def prod.case pg4_def[symmetric] r
    using t by (simp add: promise_state_def p nth_append)
qed

lemma google_poll_fires:
  assumes "timers pg ! i = \<lparr>due = d1, period = Some 100, cb = GCheckReady p, active = True\<rparr>"
    and "i < length (timers pg)"
  shows "promises (fire_timer i pg) =
           (if grecaptcha pg = GReady \<and> p < length (promises pg) \<and> promises pg ! p = Pending
            then (promises pg)[p := Fulfilled] else promises pg)"
  using assms
  by (auto simp: fire_timer_def rearm_def loader_callback_def google_checkReady_def clearTimer_def
      resolve_def settle_def Let_def)

lemma google_timeout_without_execute_aux:
  assumes a: "grecaptcha pg = GAbsent" "\<not> (scriptLoading pg \<and> loadPromise pg \<noteq> None)"
  shows "(let (p, pg1) = loadGoogleScript key pg;
              k = length (scripts pg); poll = length (timers pg);
              pg2 = (script_load k pg1)\<lparr>grecaptcha := g\<rparr>
          in promise_state p (fire_timer poll pg2) = Some (if g = GReady then Fulfilled else Pending) \<and>
             promise_state p (fire_timer (Suc poll) pg2) =
               Some (if g = GAbsent then Rejected (Error ''Google reCAPTCHA failed to load'') else Fulfilled) \<and>
             promise_state p ((fire_timer poll ^^ n) ((script_load k pg1)\<lparr>grecaptcha := GNoExecute\<rparr>)) = Some Pending \<and>
             promise_state p (fire_timer (Suc poll) ((fire_timer poll ^^ n) ((script_load k pg1)\<lparr>grecaptcha := GNoExecute\<rparr>))) = Some Fulfilled \<and>
             grecaptcha (fire_timer (Suc poll) ((fire_timer poll ^^ n) ((script_load k pg1)\<lparr>grecaptcha := GNoExecute\<rparr>))) = GNoExecute)"
proof -
  obtain p pg1 where l: "loadGoogleScript key pg = (p, pg1)" by (cases "loadGoogleScript key pg")
  define pg2 where "pg2 = script_load (length (scripts pg)) pg1"
  note o = google_onload_state[OF a l pg2_def]
  have p: "p = length (promises pg)" by (rule o(1))
  let ?poll = "length (timers pg)"
  have tm: "timers (pg2\<lparr>grecaptcha := g'\<rparr>) = timers pg @
           [\<lparr>due = now pg + 100, period = Some 100, cb = GCheckReady p, active = True\<rparr>,
            \<lparr>due = now pg + 10000, period = None, cb = GLoadTimeout p (length (timers pg)), active = True\<rparr>]" for g'
    using o(3) by simp
  have t0: "timers (pg2\<lparr>grecaptcha := g'\<rparr>) ! ?poll = \<lparr>due = now pg + 100, period = Some 100, cb = GCheckReady p, active = True\<rparr>"
    and t1: "timers (pg2\<lparr>grecaptcha := g'\<rparr>) ! Suc ?poll = \<lparr>due = now pg + 10000, period = None, cb = GLoadTimeout p ?poll, active = True\<rparr>"
    and ln: "?poll < length (timers (pg2\<lparr>grecaptcha := g'\<rparr>))" "Suc ?poll < length (timers (pg2\<lparr>grecaptcha := g'\<rparr>))" for g'
    by (simp_all add: tm nth_append)
  have pr: "promises (pg2\<lparr>grecaptcha := g'\<rparr>) = promises pg @ [Pending]" for g' using o(2) by simp
  have one: "promise_state p (fire_timer ?poll (pg2\<lparr>grecaptcha := g\<rparr>)) = Some (if g = GReady then Fulfilled else Pending)"
    by (simp add: promise_state_def google_poll_fires[OF t0 ln(1)] pr p)
  have two: "promise_state p (fire_timer (Suc ?poll) (pg2\<lparr>grecaptcha := g\<rparr>)) =
               Some (if g = GAbsent then Rejected (Error ''Google reCAPTCHA failed to load'') else Fulfilled)"
    by (simp add: promise_state_def google_timeout_fires(1)[OF t1 ln(2)] pr p)
  define pg3 where "pg3 = (fire_timer ?poll ^^ n) (pg2\<lparr>grecaptcha := GNoExecute\<rparr>)"
  have ne: "grecaptcha (pg2\<lparr>grecaptcha := GNoExecute\<rparr>) \<noteq> GReady" by simp
  note q = google_polled_state[OF tm ne pg3_def]
  have same: "promises pg3 = promises pg @ [Pending]" "grecaptcha pg3 = GNoExecute"
    using q(1) pr by (simp_all add: same_but_clock_def)
  have three: "promise_state p pg3 = Some Pending" by (simp add: promise_state_def same p)
  have four: "promise_state p (fire_timer (Suc ?poll) pg3) = Some Fulfilled"
    by (simp add: promise_state_def google_timeout_fires(1)[OF q(2) q(3)] same p)
  have five: "grecaptcha (fire_timer (Suc ?poll) pg3) = GNoExecute"
    by (simp add: google_timeout_fires(2)[OF q(2) q(3)] same)
  show ?thesis
    unfolding l Let_def prod.case pg2_def[symmetric] pg3_def[symmetric]
    using one two three four five by simp
qed


text \<open>While the fetch is in flight (before the script's load or error event) every call
  returns the promise of the first call and touches nothing.\<close>

lemma google_load_shared:
  assumes "scriptLoading pg" "loadPromise pg = Some p" "\<not> scriptLoaded pg \<or> grecaptcha pg = GAbsent"
  shows "loadGoogleScript key pg = (p, pg)"
  using assms by (auto simp: loadGoogleScript_def)

lemma cloudflare_load_shared:
  assumes "cfScriptLoading pg" "cfLoadPromise pg = Some p" "\<not> cfScriptLoaded pg \<or> \<not> turnstile pg"
  shows "loadCloudflareScript pg = (p, pg)"
  using assms by (auto simp: loadCloudflareScript_def)

section \<open>The component: lemmas\<close>

subsection \<open>Which timer fires next\<close>



subsection \<open>\<open>reset\<close> on a Turnstile instance\<close>




lemma rerender_idle:
  assumes "seenInitialized (last (effects st)) = isInitialized st"
  shows "rerender st = st"
  using assms by (simp add: rerender_def)


subsection \<open>After the unmount\<close>

text \<open>
  In a \<open>dead\<close> state every callback of the component finds \<open>isMounted\<close> false or
  has no call of \<open>onVerify\<close> in its code: each event leaves the state \<open>dead\<close> and
  records no call of \<open>onVerify\<close>. The proof goes through the callbacks one by one.
\<close>

lemma list_all_update: "list_all P xs \<Longrightarrow> P x \<Longrightarrow> list_all P (xs[i := x])"
  by (metis list_all_iff set_update_subset_insert subsetD insertE)

lemma dead_not_mounted: "dead st \<Longrightarrow> \<not> effect_mounted e st"
  by (auto simp: dead_def effect_mounted_def list_all_length)

lemma dead_record_call: "dead (record_call c st) = dead st"
  by (simp add: dead_def record_call_def)

lemma onv_record_call: "\<not> is_onVerify c \<Longrightarrow>
  filter is_onVerify (calls (record_call c st)) = filter is_onVerify (calls st)"
  by (simp add: record_call_def)

lemma dead_timer:
  "dead st \<Longrightarrow> i < length (timers st) \<Longrightarrow> active (timers st ! i) \<Longrightarrow>
     \<not> is_InitCaptcha (cb (timers st ! i))"
  by (auto simp: dead_def list_all_length)

lemma dead_rearm:
  assumes "dead st" "i < length (timers st)" "active (timers st ! i)"
  shows "dead (rearm i st)" and "calls (rearm i st) = calls st"
    and "loadWaiters (rearm i st) = loadWaiters st"
    and "promises (rearm i st) = promises st"
proof -
  have n: "\<not> is_InitCaptcha (cb (timers st ! i))" using assms by (rule dead_timer)
  show "dead (rearm i st)"
    using assms(1) n
    by (auto simp: dead_def rearm_def Let_def intro!: list_all_update split: option.splits)
  show "calls (rearm i st) = calls st" "loadWaiters (rearm i st) = loadWaiters st"
    "promises (rearm i st) = promises st"
    by (simp_all add: rearm_def Let_def)
qed

lemma dead_clearTimer: "dead st \<Longrightarrow> dead (clearTimer j st)"
  by (auto simp: dead_def clearTimer_def intro!: list_all_update)

lemma dead_settle: "dead st \<Longrightarrow> dead (settle p s st)"
  by (simp add: dead_def settle_def)

lemma dead_loader_callback:
  assumes "dead st"
  shows "dead (loader_callback f i st)"
  using assms
  by (cases f)
     (simp_all add: loader_callback_def google_checkReady_def google_timeout_def
        cloudflare_checkReady_def cloudflare_timeout_def resolve_def reject_def
        dead_settle dead_clearTimer Let_def)

lemma loader_callback_component:
  "calls (loader_callback f i st) = calls st"
  by (cases f)
     (simp_all add: loader_callback_def google_checkReady_def google_timeout_def
        cloudflare_checkReady_def cloudflare_timeout_def resolve_def reject_def settle_def
        clearTimer_def Let_def)

lemma dead_fire_timer:
  assumes "dead st" "i < length (timers st)" "active (timers st ! i)"
  shows "dead (fire_timer i st)" and "calls (fire_timer i st) = calls st"
  using assms dead_rearm[OF assms]
  by (simp_all add: fire_timer_def dead_loader_callback loader_callback_component)

lemma dead_turnstile_call:
  assumes "dead st" "\<not> is_onVerify c"
  shows "dead (snd (turnstile_call c st))"
    and "filter is_onVerify (calls (snd (turnstile_call c st))) = filter is_onVerify (calls st)"
  using assms by (simp_all add: turnstile_call_def dead_record_call onv_record_call)

lemma dead_console_error:
  "dead (console_error m st) = dead st"
  "filter is_onVerify (calls (console_error m st)) = filter is_onVerify (calls st)"
  by (simp_all add: console_error_def dead_record_call onv_record_call)

lemma dead_grecaptcha_execute:
  assumes "dead st"
  shows "dead (grecaptcha_execute (InInit e) st)"
    and "filter is_onVerify (calls (grecaptcha_execute (InInit e) st)) = filter is_onVerify (calls st)"
  using assms by (simp_all add: grecaptcha_execute_def record_call_def dead_def)

lemma dead_settle_after_load:
  assumes "dead st"
  shows "dead (settle_after_load e st)"
    and "filter is_onVerify (calls (settle_after_load e st)) = filter is_onVerify (calls st)"
proof -
  have w: "\<not> widgetRef_current st" using assms by (simp add: widgetRef_current_def dead_def)
  show "dead (settle_after_load e st)"
    using assms w
    by (simp add: settle_after_load_def dead_console_error dead_grecaptcha_execute
        split: CaptchaProvider.splits)
  show "filter is_onVerify (calls (settle_after_load e st)) = filter is_onVerify (calls st)"
    using assms w
    by (simp add: settle_after_load_def dead_console_error dead_grecaptcha_execute
        split: CaptchaProvider.splits)
qed

lemma dead_execute_call:
  assumes "dead st"
  shows "dead (settle_before_execute e st)"
    and "filter is_onVerify (calls (settle_before_execute e st)) = filter is_onVerify (calls st)"
    and "dead (reset_after_delay st)"
    and "filter is_onVerify (calls (reset_after_delay st)) = filter is_onVerify (calls st)"
  using dead_turnstile_call[OF assms, of "TurnstileExecute (widgetIdRef st)"]
  by (auto simp: settle_before_execute_def reset_after_delay_def dead_console_error
      split: prod.splits)

lemma dead_component_callback:
  assumes "dead st" "\<not> is_InitCaptcha f"
  shows "dead (component_callback f st)"
    and "filter is_onVerify (calls (component_callback f st)) = filter is_onVerify (calls st)"
  using assms
  by (cases f; simp add: component_callback_def dead_settle_after_load dead_execute_call)+

lemma dead_after_load:
  assumes "dead st"
  shows "dead (after_load e outcome st)"
    and "filter is_onVerify (calls (after_load e outcome st)) = filter is_onVerify (calls st)"
  using assms dead_not_mounted[OF assms, of e]
  by (cases outcome; simp add: after_load_def dead_console_error)+

lemma dead_fold_after_load:
  "dead st \<Longrightarrow>
     dead (fold (\<lambda>(p, e). after_load e (g p)) xs st) \<and>
     filter is_onVerify (calls (fold (\<lambda>(p, e). after_load e (g p)) xs st)) =
       filter is_onVerify (calls st)"
proof (induction xs arbitrary: st)
  case Nil
  then show ?case by simp
next
  case (Cons x xs)
  obtain p e where x: "x = (p, e)" by (cases x)
  from Cons.prems have d: "dead (after_load e (g p) st)"
    and c: "filter is_onVerify (calls (after_load e (g p) st)) = filter is_onVerify (calls st)"
    by (rule dead_after_load)+
  from Cons.IH[OF d] c show ?case by (simp add: x)
qed

lemma dead_run_waiters:
  assumes "dead st"
  shows "dead (run_waiters st)"
    and "filter is_onVerify (calls (run_waiters st)) = filter is_onVerify (calls st)"
proof -
  let ?st1 = "st\<lparr>loadWaiters := filter (\<lambda>(p, e). \<not> settled p st) (loadWaiters st)\<rparr>"
  have d: "dead ?st1" using assms by (simp add: dead_def)
  have c: "calls ?st1 = calls st" by simp
  from dead_fold_after_load[OF d, of "\<lambda>p. promises st ! p"] c
  show "dead (run_waiters st)"
    and "filter is_onVerify (calls (run_waiters st)) = filter is_onVerify (calls st)"
    by (simp_all add: run_waiters_def Let_def)
qed

lemma dead_rerender: "dead st \<Longrightarrow> rerender st = st"
  by (simp add: rerender_def dead_def)

lemma dead_after_task:
  assumes "dead st"
  shows "dead (after_task st)"
    and "filter is_onVerify (calls (after_task st)) = filter is_onVerify (calls st)"
  using dead_run_waiters[OF assms]
  by (simp_all add: after_task_def dead_rerender)

lemma dead_timer_fires:
  assumes "dead st"
  shows "dead (timer_fires i st)"
    and "filter is_onVerify (calls (timer_fires i st)) = filter is_onVerify (calls st)"
proof -
  show "dead (timer_fires i st)"
  proof (cases "i < length (timers st) \<and> active (timers st ! i)")
    case True
    then have n: "\<not> is_InitCaptcha (cb (timers st ! i))" using assms dead_timer by blast
    from True have f: "dead (fire_timer i st)" using assms dead_fire_timer by blast
    from dead_component_callback(1)[OF f n] dead_after_task(1) True
    show ?thesis by (simp add: timer_fires_def)
  next
    case False
    then show ?thesis using assms by (auto simp: timer_fires_def)
  qed
  show "filter is_onVerify (calls (timer_fires i st)) = filter is_onVerify (calls st)"
  proof (cases "i < length (timers st) \<and> active (timers st ! i)")
    case True
    then have n: "\<not> is_InitCaptcha (cb (timers st ! i))" using assms dead_timer by blast
    from True have f: "dead (fire_timer i st)" "calls (fire_timer i st) = calls st"
      using assms dead_fire_timer by blast+
    from dead_component_callback[OF f(1) n] f(2)
    have "dead (component_callback (cb (timers st ! i)) (fire_timer i st))"
      "filter is_onVerify (calls (component_callback (cb (timers st ! i)) (fire_timer i st))) =
         filter is_onVerify (calls st)" by simp_all
    with dead_after_task(2) True show ?thesis by (simp add: timer_fires_def)
  next
    case False
    then show ?thesis by (auto simp: timer_fires_def)
  qed
qed

lemma dead_script_event:
  assumes "dead st"
  shows "dead (script_load k st)" and "calls (script_load k st) = calls st"
    and "dead (script_error k st)" and "calls (script_error k st) = calls st"
  using assms
  by (auto simp: dead_def script_load_def script_error_def google_onload_def cloudflare_onload_def
      google_onerror_def cloudflare_onerror_def setInterval_def setTimeout_def reject_def
      settle_def Let_def split: script_owner.splits)

lemma dead_execute_settled:
  assumes "dead st"
  shows "dead (execute_resolved i token st)"
    and "filter is_onVerify (calls (execute_resolved i token st)) = filter is_onVerify (calls st)"
    and "dead (execute_rejected i st)"
    and "filter is_onVerify (calls (execute_rejected i st)) = filter is_onVerify (calls st)"
proof -
  have n: "executes st ! i \<noteq> Some InReset" if "i < length (executes st)"
    using assms that by (auto simp: dead_def list_all_length)
  have u: "dead (st\<lparr>executes := (executes st)[i := None]\<rparr>)"
    using assms by (auto simp: dead_def intro!: list_all_update)
  have m: "\<not> effect_mounted e (st\<lparr>executes := (executes st)[i := None]\<rparr>)" for e
    using dead_not_mounted[OF u] .
  show "dead (execute_resolved i token st)"
    using assms u n m
    by (auto simp: execute_resolved_def Let_def split: option.splits awaiter.splits)
  show "filter is_onVerify (calls (execute_resolved i token st)) = filter is_onVerify (calls st)"
    using n m
    by (auto simp: execute_resolved_def Let_def split: option.splits awaiter.splits)
  show "dead (execute_rejected i st)"
    using assms u
    by (auto simp: execute_rejected_def dead_console_error Let_def split: option.splits awaiter.splits)
  show "filter is_onVerify (calls (execute_rejected i st)) = filter is_onVerify (calls st)"
    by (auto simp: execute_rejected_def dead_console_error Let_def split: option.splits awaiter.splits)
qed

lemma dead_setIsInitialized:
  assumes "dead st"
  shows "dead (setIsInitialized v st)"
    and "filter is_onVerify (calls (setIsInitialized v st)) = filter is_onVerify (calls st)"
  using assms by (simp_all add: setIsInitialized_def record_call_def dead_def Let_def)

lemma dead_widget_callbacks:
  assumes "dead st"
  shows "widget_callback w token st = st"
    and "dead (widget_expired_callback w st)"
    and "filter is_onVerify (calls (widget_expired_callback w st)) = filter is_onVerify (calls st)"
    and "dead (widget_error_callback w st)"
    and "filter is_onVerify (calls (widget_error_callback w st)) = filter is_onVerify (calls st)"
  using assms dead_not_mounted[OF assms]
  by (simp_all add: widget_callback_def widget_expired_callback_def widget_error_callback_def
      dead_setIsInitialized dead_console_error)

lemma dead_step:
  assumes "dead st" "step ev st = Some st'"
  shows "dead st' \<and> filter is_onVerify (calls st') = filter is_onVerify (calls st)"
proof (cases ev)
  case TimerFires
  with assms(2) obtain i where "st' = timer_fires i st" by (auto split: option.splits)
  then show ?thesis using dead_timer_fires[OF assms(1)] by simp
next
  case (Wait d)
  with assms show ?thesis by (auto simp: dead_def split: if_splits)
next
  case (ScriptLoads k)
  with assms(2) have "st' = after_task (script_load k st)" by (auto split: if_splits)
  then show ?thesis
    using dead_script_event(1,2)[OF assms(1), of k] dead_after_task by simp
next
  case (ScriptFails k)
  with assms(2) have "st' = after_task (script_error k st)" by (auto split: if_splits)
  then show ?thesis
    using dead_script_event(3,4)[OF assms(1), of k] dead_after_task by simp
next
  case (GrecaptchaBecomes g)
  with assms show ?thesis by (auto simp: dead_def)
next
  case (TurnstileBecomes b)
  with assms show ?thesis by (auto simp: dead_def)
next
  case (TurnstileThrowing b)
  with assms show ?thesis by (auto simp: dead_def)
next
  case (ExecuteResolves i token)
  with assms(2) have "st' = rerender (execute_resolved i token st)" by (auto split: if_splits)
  then show ?thesis using dead_execute_settled(1,2)[OF assms(1)] by (simp add: dead_rerender)
next
  case (ExecuteRejects i)
  with assms(2) have "st' = rerender (execute_rejected i st)" by (auto split: if_splits)
  then show ?thesis using dead_execute_settled(3,4)[OF assms(1)] by (simp add: dead_rerender)
next
  case (WidgetSuccess w token)
  with assms(2) have "st' = rerender (widget_callback w token st)" by (auto split: if_splits)
  then show ?thesis using dead_widget_callbacks(1)[OF assms(1)] assms(1) by (simp add: dead_rerender)
next
  case (WidgetExpired w)
  with assms(2) have "st' = rerender (widget_expired_callback w st)" by (auto split: if_splits)
  then show ?thesis using dead_widget_callbacks(2,3)[OF assms(1)] by (simp add: dead_rerender)
next
  case (WidgetError w)
  with assms(2) have "st' = rerender (widget_error_callback w st)" by (auto split: if_splits)
  then show ?thesis using dead_widget_callbacks(4,5)[OF assms(1)] by (simp add: dead_rerender)
next
  case HostReset
  with assms show ?thesis by (auto simp: dead_def)
next
  case Unmount
  with assms show ?thesis by (auto simp: dead_def)
qed

lemma dead_run:
  "dead st \<Longrightarrow> run evs st = Some st' \<Longrightarrow>
     dead st' \<and> filter is_onVerify (calls st') = filter is_onVerify (calls st)"
proof (induction evs arbitrary: st)
  case Nil
  then show ?case by simp
next
  case (Cons ev evs)
  from Cons.prems(2) obtain st1 where s: "step ev st = Some st1" and r: "run evs st1 = Some st'"
    by (auto split: option.splits)
  from dead_step[OF Cons.prems(1) s] Cons.IH[OF _ r] show ?case by simp
qed

subsection \<open>The unmount itself\<close>

text \<open>
  The cleanup of the last effect run leaves a \<open>dead\<close> state, if that run is the only
  live one and no \<open>reset\<close> awaits the provider.
\<close>

lemma list_all_update_last:
  assumes "list_all P (butlast xs)" "P x" "xs \<noteq> []"
  shows "list_all P (xs[length xs - 1 := x])"
proof -
  from assms(3) obtain ys y where xs: "xs = ys @ [y]" by (metis rev_exhaust)
  with assms(1,2) show ?thesis by (simp add: list_update_append)
qed

lemma cleanup_last_dead:
  assumes "one_live_run st" "no_reset_in_flight st"
  shows "dead ((cleanup (length (effects st) - 1) st)\<lparr>inTree := False\<rparr>)"
    and "filter is_onVerify (calls (cleanup (length (effects st) - 1) st)) =
           filter is_onVerify (calls st)"
proof -
  let ?e = "length (effects st) - 1"
  let ?r = "(effects st ! ?e)\<lparr>isMounted := False\<rparr>"
  let ?st1 = "st\<lparr>effects := (effects st)[?e := ?r]\<rparr>"
  let ?st2 = "clearTimer (timeoutId (effects st ! ?e)) ?st1"
  from assms(1) have ne: "effects st \<noteq> []"
    and old: "list_all (\<lambda>r. \<not> isMounted r) (butlast (effects st))"
    and tm: "list_all (\<lambda>i. if active (timers st ! i) \<and> is_InitCaptcha (cb (timers st ! i))
                     then i = timeoutId (last (effects st)) else True) [0 ..< length (timers st)]"
    by (simp_all add: one_live_run_def)
  from ne have e: "?e < length (effects st)" by simp
  have lst: "effects st ! ?e = last (effects st)" using ne by (simp add: last_conv_nth)
  have eff: "list_all (\<lambda>r. \<not> isMounted r) ((effects st)[?e := ?r])"
    using old ne by (intro list_all_update_last) simp_all
  have tms: "list_all (\<lambda>t. \<not> (active t \<and> is_InitCaptcha (cb t))) (timers ?st2)"
    unfolding list_all_length
  proof (intro allI impI)
    fix i assume i: "i < length (timers ?st2)"
    then have i': "i < length (timers st)" by (simp add: clearTimer_def split: if_splits)
    show "\<not> (active (timers ?st2 ! i) \<and> is_InitCaptcha (cb (timers ?st2 ! i)))"
    proof (cases "i = timeoutId (effects st ! ?e)")
      case True
      then show ?thesis using i' by (simp add: clearTimer_def)
    next
      case False
      from tm i' have "if active (timers st ! i) \<and> is_InitCaptcha (cb (timers st ! i))
                     then i = timeoutId (last (effects st)) else True"
        by (simp add: list_all_iff)
      with False lst have "\<not> (active (timers st ! i) \<and> is_InitCaptcha (cb (timers st ! i)))"
        by (auto split: if_splits)
      then show ?thesis using False i' by (simp add: clearTimer_def)
    qed
  qed
  have d2: "dead (?st2\<lparr>inTree := False\<rparr>)"
    using eff tms assms(2)
    by (simp add: dead_def no_reset_in_flight_def) (simp add: clearTimer_def)
  have c2: "calls ?st2 = calls st" by (simp add: clearTimer_def)
  have cl: "cleanup ?e st =
      (case widgetIdRef ?st2 of
              Some w \<Rightarrow>
                if provider (props ?st2) = CloudflareTurnstile \<and> turnstile ?st2 then
                  (case turnstile_call (TurnstileRemove w) ?st2 of
                     (threw, st3) \<Rightarrow>
                       if threw then console_error ''Failed to remove Turnstile widget:'' st3
                       else st3\<lparr>widgetIdRef := None\<rparr>)
                else ?st2
            | None \<Rightarrow> ?st2)"
    by (simp only: cleanup_def Let_def e if_True)
  have dd: "dead (x\<lparr>inTree := False\<rparr>) \<Longrightarrow> dead ((record_call c x)\<lparr>inTree := False\<rparr>)" for x c
    by (simp add: dead_def record_call_def)
  have dw: "dead (x\<lparr>inTree := False\<rparr>) \<Longrightarrow> dead (x\<lparr>widgetIdRef := None, inTree := False\<rparr>)" for x
    by (simp add: dead_def)
  show "dead ((cleanup ?e st)\<lparr>inTree := False\<rparr>)"
    unfolding cl using d2
    by (auto simp: turnstile_call_def console_error_def intro!: dd dw split: option.splits)
  show "filter is_onVerify (calls (cleanup ?e st)) = filter is_onVerify (calls st)"
    unfolding cl using c2
    by (auto simp: turnstile_call_def console_error_def record_call_def split: option.splits)
qed

lemma no_onVerify_after_unmount:
  assumes "inTree st" "one_live_run st" "no_reset_in_flight st"
    and "run (Unmount # evs) st = Some st'"
  shows "filter is_onVerify (calls st') = filter is_onVerify (calls st)"
proof -
  from assms(1,4) have r: "run evs (unmount st) = Some st'" by simp
  have d: "dead (unmount st)" unfolding unmount_def using assms(2,3) by (rule cleanup_last_dead)
  have c: "filter is_onVerify (calls (unmount st)) = filter is_onVerify (calls st)"
    using cleanup_last_dead(2)[OF assms(2,3)] by (simp add: unmount_def)
  from dead_run[OF d r] c show ?thesis by simp
qed

lemma after_load_unmounted:
  assumes "\<not> effect_mounted e st"
  shows "after_load e Fulfilled st = st"
    and "after_load e (Rejected err) st = console_error ''Captcha initialization failed:'' st"
  using assms by (simp_all add: after_load_def)

lemma unmount_removes_widget:
  assumes "inTree st" "effects st \<noteq> []" "provider (props st) = CloudflareTurnstile"
    "widgetIdRef st = Some w" "turnstile st" "\<not> turnstileThrows st"
  shows "step Unmount st = Some (unmount st)"
    and "calls (unmount st) = calls st @ [TurnstileRemove w]"
    and "widgetIdRef (unmount st) = None"
    and "\<not> inTree (unmount st)"
  using assms
  by (simp_all add: unmount_def cleanup_def clearTimer_def turnstile_call_def record_call_def Let_def)

section \<open>The states an instance can reach\<close>

text \<open>
  From its mount on, an instance is \<open>well_formed\<close> between any two tasks. Every piece
  of the component's code but the effect and its cleanup is \<open>calm\<close>; the code that runs
  outside the microtask step is \<open>still\<close>; re-rendering and unmounting restore the rest.
\<close>

lemma init_only_append:
  "init_only c ts \<Longrightarrow> \<not> (active t \<and> is_InitCaptcha (cb t)) \<Longrightarrow> init_only c (ts @ [t])"
  by (auto simp: init_only_def nth_append less_Suc_eq)

lemma init_only_update:
  "init_only c ts \<Longrightarrow> (active t \<and> is_InitCaptcha (cb t) \<Longrightarrow> active (ts ! j) \<and> is_InitCaptcha (cb (ts ! j))) \<Longrightarrow>
     init_only c (ts[j := t])"
  unfolding init_only_def
proof (intro allI impI)
  fix i
  assume a: "\<forall>i<length ts. active (ts ! i) \<and> is_InitCaptcha (cb (ts ! i)) \<longrightarrow> i = c"
    and b: "active t \<and> is_InitCaptcha (cb t) \<Longrightarrow> active (ts ! j) \<and> is_InitCaptcha (cb (ts ! j))"
    and i: "i < length (ts[j := t])"
    and c: "active (ts[j := t] ! i) \<and> is_InitCaptcha (cb (ts[j := t] ! i))"
  show "i = c"
  proof (cases "i = j")
    case True
    with i c have "active t \<and> is_InitCaptcha (cb t)" by simp
    then have "active (ts ! j) \<and> is_InitCaptcha (cb (ts ! j))" by (rule b)
    with a i True show ?thesis by simp
  next
    case False
    with c have "active (ts ! i) \<and> is_InitCaptcha (cb (ts ! i))" by simp
    with a i show ?thesis by simp
  qed
qed

lemma init_only_append2:
  "init_only c ts \<Longrightarrow> \<not> (active t \<and> is_InitCaptcha (cb t)) \<Longrightarrow>
     \<not> (active u \<and> is_InitCaptcha (cb u)) \<Longrightarrow> init_only c (ts @ [t, u])"
  using init_only_append[OF init_only_append, of c ts t u] by simp

lemma one_live_run_alt:
  "one_live_run st =
     (effects st \<noteq> [] \<and> list_all (\<lambda>r. \<not> isMounted r) (butlast (effects st)) \<and>
      init_only (timeoutId (last (effects st))) (timers st))"
  by (auto simp: one_live_run_def init_only_def list_all_iff)

lemma calm_refl: "calm st st"
  by (simp add: calm_def)

lemma calm_trans: "calm a b \<Longrightarrow> calm b c \<Longrightarrow> calm a c"
  by (simp add: calm_def)

lemma calm_one_live_run: "calm st st' \<Longrightarrow> one_live_run st \<Longrightarrow> one_live_run st'"
  by (simp add: calm_def one_live_run_alt)

lemma calm_record_call: "calm st (record_call c st)"
  by (simp add: calm_def record_call_def)

lemma calm_setIsInitialized: "calm st (setIsInitialized v st)"
  by (simp add: calm_def setIsInitialized_def record_call_def Let_def)

lemma calm_clearTimer: "calm st (clearTimer j st)"
  by (auto simp: calm_def clearTimer_def intro!: init_only_update)

lemma calm_settle: "calm st (settle p s st)"
  by (simp add: calm_def settle_def)

lemma calm_rearm: "i < length (timers st) \<Longrightarrow> calm st (rearm i st)"
  by (auto simp: calm_def rearm_def Let_def intro!: init_only_update split: option.splits)

lemma calm_setTimeout: "\<not> is_InitCaptcha f \<Longrightarrow> calm st (snd (setTimeout f d st))"
  by (auto simp: calm_def setTimeout_def intro!: init_only_append)

lemma calm_loader_callback: "calm st (loader_callback f i st)"
  by (cases f)
     (auto simp: loader_callback_def google_checkReady_def google_timeout_def
        cloudflare_checkReady_def cloudflare_timeout_def resolve_def reject_def Let_def
        intro: calm_refl calm_trans[OF calm_clearTimer calm_settle])

lemma calm_fire_timer: "calm st (fire_timer i st)"
  by (auto simp: fire_timer_def intro: calm_refl calm_trans[OF calm_rearm calm_loader_callback])

lemma calm_script_event: "calm st (script_load k st)" "calm st (script_error k st)"
  by (auto simp: calm_def script_load_def script_error_def google_onload_def cloudflare_onload_def
      google_onerror_def cloudflare_onerror_def setInterval_def setTimeout_def reject_def
      settle_def Let_def intro!: init_only_append2 split: script_owner.splits)

lemma calm_load: "calm st (snd (loadGoogleScript key st))" "calm st (snd (loadCloudflareScript st))"
  by (auto simp: calm_def loadGoogleScript_def loadCloudflareScript_def promise_resolve_def
      new_promise_def appendScript_def Let_def)

lemma calm_turnstile_call: "calm st (snd (turnstile_call c st))"
  by (simp add: turnstile_call_def calm_record_call calm_refl)

lemma calm_console_error: "calm st (console_error m st)"
  by (simp add: console_error_def calm_record_call)

lemma calm_onVerify: "calm st (onVerify m st)"
  by (simp add: onVerify_def calm_record_call)

lemma calm_grecaptcha_execute: "calm st (grecaptcha_execute a st)"
  by (simp add: calm_def grecaptcha_execute_def record_call_def)

lemma calm_turnstile_render: "calm st (snd (turnstile_render e st))"
  by (auto simp: calm_def turnstile_render_def turnstile_call_def record_call_def Let_def)

lemma calm_initCaptcha: "calm st (initCaptcha e st)"
proof -
  have a: "calm st (x\<lparr>loadWaiters := l\<rparr>)" if "calm st x" for x l
    using that by (simp add: calm_def)
  show ?thesis
    using calm_load(1)[of st "siteKey (props st)"] calm_load(2)[of st]
    by (auto simp: initCaptcha_def Let_def split_beta
        intro: calm_refl a calm_trans[OF calm_onVerify calm_setIsInitialized]
        split: CaptchaProvider.splits)
qed

lemma calm_after_load: "calm st (after_load e outcome st)"
  by (cases outcome) (auto simp: after_load_def intro: calm_refl calm_console_error calm_setTimeout)

lemma calm_settle_after_load: "calm st (settle_after_load e st)"
proof -
  have r: "calm st (settle_after_load e st)" if "provider (props st) = CloudflareTurnstile"
    "turnstile st" "widgetRef_current st" "widgetIdRef st = None"
  proof -
    obtain threw st1 where t: "turnstile_render e st = (threw, st1)" by (cases "turnstile_render e st")
    then have c1: "calm st st1" using calm_turnstile_render[of st e] by simp
    show ?thesis
      using that t c1
      by (auto simp: settle_after_load_def
          intro: calm_trans[OF c1 calm_console_error] calm_trans[OF c1 calm_setTimeout])
  qed
  show ?thesis
  proof (cases "provider (props st)")
    case GoogleV3
    then show ?thesis
      by (simp add: settle_after_load_def calm_grecaptcha_execute calm_console_error)
  next
    case CloudflareTurnstile
    then show ?thesis
      using r by (cases "turnstile st \<and> widgetRef_current st \<and> widgetIdRef st = None")
        (auto simp: settle_after_load_def intro: calm_refl calm_console_error)
  qed
qed

lemma calm_execute_call: "calm st (settle_before_execute e st)" "calm st (reset_after_delay st)"
proof -
  obtain threw st1 where t: "turnstile_call (TurnstileExecute (widgetIdRef st)) st = (threw, st1)"
    by (cases "turnstile_call (TurnstileExecute (widgetIdRef st)) st")
  then have c1: "calm st st1" using calm_turnstile_call[of st "TurnstileExecute (widgetIdRef st)"] by simp
  show "calm st (settle_before_execute e st)" "calm st (reset_after_delay st)"
    using t c1 by (auto simp: settle_before_execute_def reset_after_delay_def
        intro: calm_trans[OF c1 calm_console_error])
qed

lemma calm_component_callback: "calm st (component_callback f st)"
  by (cases f)
     (simp_all add: component_callback_def calm_refl calm_initCaptcha calm_settle_after_load
        calm_execute_call)

lemma calm_fold_after_load: "calm st (fold (\<lambda>(p, e). after_load e (g p)) xs st)"
proof (induction xs arbitrary: st)
  case Nil
  show ?case by (simp add: calm_refl)
next
  case (Cons x xs)
  obtain p e where x: "x = (p, e)" by (cases x)
  show ?case
    using calm_trans[OF calm_after_load[of st e "g p"] Cons.IH[of "after_load e (g p) st"]]
    by (simp add: x)
qed

lemma calm_run_waiters: "calm st (run_waiters st)"
proof -
  let ?st1 = "st\<lparr>loadWaiters := filter (\<lambda>(p, e). \<not> settled p st) (loadWaiters st)\<rparr>"
  have "calm st ?st1" by (simp add: calm_def)
  from calm_trans[OF this calm_fold_after_load[of ?st1 "\<lambda>p. promises st ! p"]]
  show ?thesis by (simp add: run_waiters_def Let_def)
qed

lemma calm_reset: "calm st (reset st)"
proof (cases "skip (props st)")
  case True
  then show ?thesis by (simp add: reset_def calm_refl)
next
  case False
  let ?st1 = "setIsInitialized False st"
  have c1: "calm st ?st1" by (rule calm_setIsInitialized)
  define st2 where "st2 =
              (case widgetIdRef ?st1 of
                 Some w \<Rightarrow>
                   if provider (props ?st1) = CloudflareTurnstile \<and> turnstile ?st1 then
                     (case turnstile_call (TurnstileReset w) ?st1 of
                        (threw, st') \<Rightarrow>
                          if threw then console_error '' Failed to reset Turnstile:'' st'
                          else if mode (props st') = Invisible
                            then snd (setTimeout ResetDelay 100 st')
                          else st')
                   else ?st1
               | None \<Rightarrow> ?st1)"
  have c2: "calm ?st1 st2"
  proof (cases "widgetIdRef ?st1")
    case None
    then show ?thesis by (simp add: st2_def calm_refl)
  next
    case (Some w)
    obtain threw st' where t: "turnstile_call (TurnstileReset w) ?st1 = (threw, st')"
      by (cases "turnstile_call (TurnstileReset w) ?st1")
    then have c: "calm ?st1 st'" using calm_turnstile_call[of ?st1 "TurnstileReset w"] by simp
    show ?thesis
      using Some t c
      by (auto simp: st2_def intro: calm_refl calm_trans[OF c calm_console_error]
          calm_trans[OF c calm_setTimeout])
  qed
  have r: "reset st = (if provider (props st2) = GoogleV3 then
             (if grecaptcha st2 = GReady then grecaptcha_execute InReset st2 else st2)
           else st2)"
    using False by (simp add: reset_def st2_def Let_def)
  show ?thesis
    unfolding r using calm_trans[OF c1 c2] calm_trans[OF calm_trans[OF c1 c2] calm_grecaptcha_execute]
    by simp
qed

lemma calm_execute_settled: "calm st (execute_resolved i token st)" "calm st (execute_rejected i st)"
proof -
  let ?st1 = "st\<lparr>executes := (executes st)[i := None]\<rparr>"
  have c: "calm st ?st1" by (simp add: calm_def)
  have v: "calm st (onVerify token (setIsInitialized True ?st1))"
    by (rule calm_trans[OF c calm_trans[OF calm_setIsInitialized calm_onVerify]])
  show "calm st (execute_resolved i token st)"
    using c v by (auto simp: execute_resolved_def Let_def calm_refl split: option.splits awaiter.splits)
  show "calm st (execute_rejected i st)"
    using c calm_trans[OF c calm_console_error]
    by (auto simp: execute_rejected_def Let_def calm_refl split: option.splits awaiter.splits)
qed

lemma calm_widget_callbacks:
  "calm st (widget_callback w token st)" "calm st (widget_expired_callback w st)"
  "calm st (widget_error_callback w st)"
  by (auto simp: widget_callback_def widget_expired_callback_def widget_error_callback_def
      intro: calm_refl calm_setIsInitialized calm_trans[OF calm_setIsInitialized calm_onVerify]
        calm_trans[OF calm_console_error calm_setIsInitialized])

subsection \<open>Code that settles no promise\<close>

lemma still_refl: "still st st"
  by (simp add: still_def)

lemma still_trans: "still a b \<Longrightarrow> still b c \<Longrightarrow> still a c"
  by (simp add: still_def)

lemma still_waiters_pending: "still st st' \<Longrightarrow> waiters_pending st \<Longrightarrow> waiters_pending st'"
  by (simp add: still_def waiters_pending_def settled_def)

lemma still_record_call: "still st (record_call c st)"
  by (simp add: still_def record_call_def)

lemma still_setIsInitialized: "still st (setIsInitialized v st)"
  by (simp add: still_def setIsInitialized_def record_call_def Let_def)

lemma still_console_error: "still st (console_error m st)"
  by (simp add: console_error_def still_record_call)

lemma still_onVerify: "still st (onVerify m st)"
  by (simp add: onVerify_def still_record_call)

lemma still_turnstile_call: "still st (snd (turnstile_call c st))"
  by (simp add: turnstile_call_def still_record_call still_refl)

lemma still_grecaptcha_execute: "still st (grecaptcha_execute a st)"
  by (simp add: still_def grecaptcha_execute_def record_call_def)

lemma still_setTimeout: "still st (snd (setTimeout f d st))"
  by (simp add: still_def setTimeout_def)

lemma still_clearTimer: "still st (clearTimer j st)"
  by (simp add: still_def clearTimer_def)

lemma still_after_load: "still st (after_load e outcome st)"
  by (cases outcome) (auto simp: after_load_def intro: still_refl still_console_error still_setTimeout)

lemma still_fold_after_load: "still st (fold (\<lambda>(p, e). after_load e (g p)) xs st)"
proof (induction xs arbitrary: st)
  case Nil
  show ?case by (simp add: still_refl)
next
  case (Cons x xs)
  obtain p e where x: "x = (p, e)" by (cases x)
  show ?case
    using still_trans[OF still_after_load[of st e "g p"] Cons.IH[of "after_load e (g p) st"]]
    by (simp add: x)
qed

lemma run_waiters_pending: "waiters_pending (run_waiters st)"
proof -
  let ?st1 = "st\<lparr>loadWaiters := filter (\<lambda>(p, e). \<not> settled p st) (loadWaiters st)\<rparr>"
  have p: "waiters_pending ?st1"
    by (auto simp: waiters_pending_def settled_def list_all_iff)
  from still_waiters_pending[OF still_fold_after_load[of ?st1 "\<lambda>p. promises st ! p"] p]
  show ?thesis by (simp add: run_waiters_def Let_def)
qed

subsection \<open>Re-rendering and unmounting\<close>

lemma cleanup_fields:
  assumes "e < length (effects st)"
  shows "effects (cleanup e st) = (effects st)[e := (effects st ! e)\<lparr>isMounted := False\<rparr>]"
    and "timers (cleanup e st) = timers (clearTimer (timeoutId (effects st ! e)) st)"
    and "inTree (cleanup e st) = inTree st"
    and "isInitialized (cleanup e st) = isInitialized st"
    and "still st (cleanup e st)"
  using assms
  by (auto simp: cleanup_def Let_def clearTimer_def turnstile_call_def record_call_def
      console_error_def still_def split: option.splits)

lemma run_effect_fields:
  "effects (run_effect st) =
     effects st @ [\<lparr>isMounted = True, timeoutId = length (timers st), seenInitialized = isInitialized st\<rparr>]"
  "timers (run_effect st) =
     timers st @ [\<lparr>due = now st + 100, period = None, cb = InitCaptcha (length (effects st)), active = True\<rparr>]"
  "inTree (run_effect st) = inTree st"
  "isInitialized (run_effect st) = isInitialized st"
  "still st (run_effect st)"
  by (simp_all add: run_effect_def setTimeout_def still_def)

lemma init_only_cleared:
  assumes "init_only c ts"
  shows "list_all (\<lambda>t. \<not> (active t \<and> is_InitCaptcha (cb t)))
           (if c < length ts then ts[c := (ts ! c)\<lparr>active := False\<rparr>] else ts)"
  unfolding list_all_length
proof (intro allI impI)
  fix i
  assume i: "i < length (if c < length ts then ts[c := (ts ! c)\<lparr>active := False\<rparr>] else ts)"
  then have i': "i < length ts" by (simp split: if_splits)
  show "\<not> (active ((if c < length ts then ts[c := (ts ! c)\<lparr>active := False\<rparr>] else ts) ! i) \<and>
            is_InitCaptcha (cb ((if c < length ts then ts[c := (ts ! c)\<lparr>active := False\<rparr>] else ts) ! i)))"
  proof (cases "i = c")
    case True
    then show ?thesis using i' by simp
  next
    case False
    then have "\<not> (active (ts ! i) \<and> is_InitCaptcha (cb (ts ! i)))"
      using assms i' by (auto simp: init_only_def)
    then show ?thesis using False i' by simp
  qed
qed

lemma timers_clearTimer:
  "timers (clearTimer c st) =
     (if c < length (timers st) then (timers st)[c := (timers st ! c)\<lparr>active := False\<rparr>] else timers st)"
  by (simp add: clearTimer_def)

lemma init_only_new:
  "list_all (\<lambda>t. \<not> (active t \<and> is_InitCaptcha (cb t))) ts \<Longrightarrow> init_only (length ts) (ts @ [t])"
  by (auto simp: init_only_def list_all_length nth_append less_Suc_eq)

lemma rerender_well_formed:
  assumes "one_live_run st" "waiters_pending st"
  shows "well_formed (rerender st)"
proof (cases "inTree st \<and> effects st \<noteq> [] \<and> seenInitialized (last (effects st)) \<noteq> isInitialized st")
  case False
  then have r: "rerender st = st" by (simp only: rerender_def if_False)
  have "effects st \<noteq> []" using assms(1) by (simp add: one_live_run_def)
  with False have "inTree st \<longrightarrow> seenInitialized (last (effects st)) = isInitialized st" by auto
  then show ?thesis unfolding r well_formed_def using assms by simp
next
  case True
  let ?e = "length (effects st) - 1"
  let ?st1 = "cleanup ?e st"
  from True have ne: "effects st \<noteq> []" by simp
  then have e: "?e < length (effects st)" by simp
  note cf = cleanup_fields[OF e]
  have lst: "effects st ! ?e = last (effects st)" using ne by (simp add: last_conv_nth)
  from assms(1) have old: "list_all (\<lambda>r. \<not> isMounted r) (butlast (effects st))"
    and io: "init_only (timeoutId (last (effects st))) (timers st)"
    by (simp_all add: one_live_run_alt)
  have eff: "list_all (\<lambda>r. \<not> isMounted r) (effects ?st1)"
    unfolding cf(1) using old ne by (intro list_all_update_last) simp_all
  have tm: "list_all (\<lambda>t. \<not> (active t \<and> is_InitCaptcha (cb t))) (timers ?st1)"
    unfolding cf(2) timers_clearTimer lst using io by (rule init_only_cleared)
  have r: "rerender st = run_effect ?st1" using True by (simp add: rerender_def)
  have "one_live_run (run_effect ?st1)"
    unfolding one_live_run_alt run_effect_fields using eff tm by (simp add: init_only_new)
  moreover have "waiters_pending (run_effect ?st1)"
    using still_waiters_pending[OF still_trans[OF cf(5) run_effect_fields(5)] assms(2)] .
  moreover have "seenInitialized (last (effects (run_effect ?st1))) = isInitialized (run_effect ?st1)"
    by (simp add: run_effect_fields)
  ultimately show ?thesis by (simp add: well_formed_def r)
qed

lemma unmount_well_formed:
  assumes "one_live_run st" "waiters_pending st"
  shows "well_formed (unmount st)"
proof -
  let ?e = "length (effects st) - 1"
  from assms(1) have ne: "effects st \<noteq> []"
    and old: "list_all (\<lambda>r. \<not> isMounted r) (butlast (effects st))"
    and io: "init_only (timeoutId (last (effects st))) (timers st)"
    by (simp_all add: one_live_run_alt)
  then have e: "?e < length (effects st)" by simp
  note cf = cleanup_fields[OF e]
  have lst: "effects st ! ?e = last (effects st)" using ne by (simp add: last_conv_nth)
  obtain ys y where xs: "effects st = ys @ [y]" using ne by (metis rev_exhaust)
  have b: "butlast (effects (cleanup ?e st)) = butlast (effects st)"
    and l: "timeoutId (last (effects (cleanup ?e st))) = timeoutId (last (effects st))"
    and n: "effects (cleanup ?e st) \<noteq> []"
    unfolding cf(1) by (simp_all add: xs)
  have t: "init_only (timeoutId (last (effects st))) (timers (cleanup ?e st))"
    unfolding cf(2) timers_clearTimer using io by (auto intro!: init_only_update)
  have "one_live_run (cleanup ?e st)"
    unfolding one_live_run_alt b l using n old t by simp
  then have "one_live_run (unmount st)"
    by (simp add: unmount_def one_live_run_alt)
  moreover have "waiters_pending (unmount st)"
    using still_waiters_pending[OF cf(5) assms(2)]
    by (simp add: unmount_def waiters_pending_def settled_def)
  ultimately show ?thesis by (simp add: well_formed_def unmount_def)
qed

lemma still_reset: "still st (reset st)"
proof (cases "skip (props st)")
  case True
  then show ?thesis by (simp add: reset_def still_refl)
next
  case False
  let ?st1 = "setIsInitialized False st"
  have c1: "still st ?st1" by (rule still_setIsInitialized)
  define st2 where "st2 =
              (case widgetIdRef ?st1 of
                 Some w \<Rightarrow>
                   if provider (props ?st1) = CloudflareTurnstile \<and> turnstile ?st1 then
                     (case turnstile_call (TurnstileReset w) ?st1 of
                        (threw, st') \<Rightarrow>
                          if threw then console_error '' Failed to reset Turnstile:'' st'
                          else if mode (props st') = Invisible
                            then snd (setTimeout ResetDelay 100 st')
                          else st')
                   else ?st1
               | None \<Rightarrow> ?st1)"
  have c2: "still ?st1 st2"
  proof (cases "widgetIdRef ?st1")
    case None
    then show ?thesis by (simp add: st2_def still_refl)
  next
    case (Some w)
    obtain threw st' where t: "turnstile_call (TurnstileReset w) ?st1 = (threw, st')"
      by (cases "turnstile_call (TurnstileReset w) ?st1")
    then have c: "still ?st1 st'" using still_turnstile_call[of ?st1 "TurnstileReset w"] by simp
    show ?thesis
      using Some t c
      by (auto simp: st2_def intro: still_refl still_trans[OF c still_console_error]
          still_trans[OF c still_setTimeout])
  qed
  have r: "reset st = (if provider (props st2) = GoogleV3 then
             (if grecaptcha st2 = GReady then grecaptcha_execute InReset st2 else st2)
           else st2)"
    using False by (simp add: reset_def st2_def Let_def)
  show ?thesis
    unfolding r using still_trans[OF c1 c2] still_trans[OF still_trans[OF c1 c2] still_grecaptcha_execute]
    by simp
qed

lemma still_execute_settled: "still st (execute_resolved i token st)" "still st (execute_rejected i st)"
proof -
  let ?st1 = "st\<lparr>executes := (executes st)[i := None]\<rparr>"
  have c: "still st ?st1" by (simp add: still_def)
  have v: "still st (onVerify token (setIsInitialized True ?st1))"
    by (rule still_trans[OF c still_trans[OF still_setIsInitialized still_onVerify]])
  show "still st (execute_resolved i token st)"
    using c v by (auto simp: execute_resolved_def Let_def still_refl split: option.splits awaiter.splits)
  show "still st (execute_rejected i st)"
    using c still_trans[OF c still_console_error]
    by (auto simp: execute_rejected_def Let_def still_refl split: option.splits awaiter.splits)
qed

lemma still_widget_callbacks:
  "still st (widget_callback w token st)" "still st (widget_expired_callback w st)"
  "still st (widget_error_callback w st)"
  by (auto simp: widget_callback_def widget_expired_callback_def widget_error_callback_def
      intro: still_refl still_setIsInitialized still_trans[OF still_setIsInitialized still_onVerify]
        still_trans[OF still_console_error still_setIsInitialized])

subsection \<open>Every event keeps the instance well formed\<close>

lemma well_formed_cong:
  assumes "effects st' = effects st" "timers st' = timers st" "inTree st' = inTree st"
    "isInitialized st' = isInitialized st" "promises st' = promises st"
    "loadWaiters st' = loadWaiters st"
  shows "well_formed st' = well_formed st"
  using assms by (simp add: well_formed_def one_live_run_alt waiters_pending_def settled_def)

lemma after_task_well_formed:
  assumes "one_live_run st"
  shows "well_formed (after_task st)"
  unfolding after_task_def
  using calm_one_live_run[OF calm_run_waiters assms] run_waiters_pending
  by (rule rerender_well_formed)

lemma well_formed_step:
  assumes "well_formed st" "step ev st = Some st'"
  shows "well_formed st'"
proof -
  from assms(1) have o: "one_live_run st" and w: "waiters_pending st"
    by (simp_all add: well_formed_def)
  have quiet: "well_formed (rerender (h st))" if "calm st (h st)" "still st (h st)" for h
    using calm_one_live_run[OF that(1) o] still_waiters_pending[OF that(2) w]
    by (rule rerender_well_formed)
  show ?thesis
  proof (cases ev)
    case TimerFires
    with assms(2) obtain i where i: "st' = timer_fires i st" by (auto split: option.splits)
    show ?thesis
    proof (cases "i < length (timers st) \<and> active (timers st ! i)")
      case True
      have "one_live_run (component_callback (cb (timers st ! i)) (fire_timer i st))"
        using calm_one_live_run[OF calm_trans[OF calm_fire_timer calm_component_callback] o] .
      then show ?thesis using True i by (simp add: timer_fires_def after_task_well_formed)
    next
      case False
      then show ?thesis using i assms(1) by (auto simp: timer_fires_def)
    qed
  next
    case (Wait d)
    with assms(2) have "st' = st\<lparr>now := now st + d\<rparr>" by (auto split: if_splits)
    then show ?thesis using assms(1) well_formed_cong[of st' st] by simp
  next
    case (ScriptLoads k)
    with assms(2) have "st' = after_task (script_load k st)" by (auto split: if_splits)
    then show ?thesis
      using after_task_well_formed[OF calm_one_live_run[OF calm_script_event(1) o]] by simp
  next
    case (ScriptFails k)
    with assms(2) have "st' = after_task (script_error k st)" by (auto split: if_splits)
    then show ?thesis
      using after_task_well_formed[OF calm_one_live_run[OF calm_script_event(2) o]] by simp
  next
    case (GrecaptchaBecomes g)
    with assms(2) have "st' = st\<lparr>grecaptcha := g\<rparr>" by auto
    then show ?thesis using assms(1) well_formed_cong[of st' st] by simp
  next
    case (TurnstileBecomes b)
    with assms(2) have "st' = st\<lparr>turnstile := b\<rparr>" by auto
    then show ?thesis using assms(1) well_formed_cong[of st' st] by simp
  next
    case (TurnstileThrowing b)
    with assms(2) have "st' = st\<lparr>turnstileThrows := b\<rparr>" by auto
    then show ?thesis using assms(1) well_formed_cong[of st' st] by simp
  next
    case (ExecuteResolves i token)
    with assms(2) have "st' = rerender (execute_resolved i token st)" by (auto split: if_splits)
    then show ?thesis using quiet[of "execute_resolved i token"]
      by (simp add: calm_execute_settled still_execute_settled)
  next
    case (ExecuteRejects i)
    with assms(2) have "st' = rerender (execute_rejected i st)" by (auto split: if_splits)
    then show ?thesis using quiet[of "execute_rejected i"]
      by (simp add: calm_execute_settled still_execute_settled)
  next
    case (WidgetSuccess w token)
    with assms(2) have "st' = rerender (widget_callback w token st)" by (auto split: if_splits)
    then show ?thesis using quiet[of "widget_callback w token"]
      by (simp add: calm_widget_callbacks still_widget_callbacks)
  next
    case (WidgetExpired w)
    with assms(2) have "st' = rerender (widget_expired_callback w st)" by (auto split: if_splits)
    then show ?thesis using quiet[of "widget_expired_callback w"]
      by (simp add: calm_widget_callbacks still_widget_callbacks)
  next
    case (WidgetError w)
    with assms(2) have "st' = rerender (widget_error_callback w st)" by (auto split: if_splits)
    then show ?thesis using quiet[of "widget_error_callback w"]
      by (simp add: calm_widget_callbacks still_widget_callbacks)
  next
    case HostReset
    with assms(2) have "st' = rerender (reset st)" by (auto split: if_splits)
    then show ?thesis using quiet[of reset] by (simp add: calm_reset still_reset)
  next
    case Unmount
    with assms(2) have "st' = unmount st" by (auto split: if_splits)
    then show ?thesis using unmount_well_formed[OF o w] by simp
  qed
qed

lemma well_formed_run:
  "well_formed st \<Longrightarrow> run evs st = Some st' \<Longrightarrow> well_formed st'"
proof (induction evs arbitrary: st)
  case Nil
  then show ?case by simp
next
  case (Cons ev evs)
  from Cons.prems(2) obtain st1 where s: "step ev st = Some st1" and r: "run evs st1 = Some st'"
    by (auto split: option.splits)
  from Cons.IH[OF well_formed_step[OF Cons.prems(1) s] r] show ?case .
qed

lemma well_formed_mount:
  assumes "no_init_timer pg"
  shows "well_formed (mount ps pg)"
proof -
  have "init_only (length (timers pg)) (timers pg @ [t])" for t
    using assms by (auto simp: no_init_timer_def intro: init_only_new)
  then show ?thesis
    by (simp add: well_formed_def one_live_run_alt waiters_pending_def mount_def run_effect_def
        setTimeout_def page.extend_def)
qed

lemma reachable_well_formed:
  assumes "no_init_timer pg" "run evs (mount ps pg) = Some st"
  shows "one_live_run st" and "inTree st \<Longrightarrow> idle st"
proof -
  have w: "well_formed st" using well_formed_run[OF well_formed_mount[OF assms(1)] assms(2)] .
  then show "one_live_run st" by (simp add: well_formed_def)
  assume "inTree st"
  with w show "idle st"
    by (simp add: well_formed_def idle_def waiters_pending_def one_live_run_def)
qed

section \<open>\<open>reset\<close> after its wait, and the unmount\<close>



text \<open>
  An instance that is unmounted while no call of \<open>reset\<close> awaits \<open>grecaptcha.execute\<close>
  calls \<open>onVerify\<close> no more, whatever happens afterwards; and the cleanup of a Turnstile
  instance that holds a widget removes it.
\<close>

lemma unmounted_instance_is_silent:
  assumes "no_init_timer pg" "run hist (mount ps pg) = Some st" "inTree st" "no_reset_in_flight st"
    and "run (Unmount # evs) st = Some st'"
  shows "filter is_onVerify (calls st') = filter is_onVerify (calls st)"
proof -
  have "one_live_run st" using assms(1,2) by (rule reachable_well_formed)
  with assms(3-) show ?thesis by (intro no_onVerify_after_unmount)
qed

lemma unmount_removes_reachable_widget:
  assumes "no_init_timer pg" "run hist (mount ps pg) = Some st" "inTree st"
    "provider (props st) = CloudflareTurnstile" "widgetIdRef st = Some w" "turnstile st"
    "\<not> turnstileThrows st"
  shows "step Unmount st = Some (unmount st)" and "calls (unmount st) = calls st @ [TurnstileRemove w]"
    and "widgetIdRef (unmount st) = None" and "\<not> inTree (unmount st)"
proof -
  have "one_live_run st" using assms(1,2) by (rule reachable_well_formed)
  then have "effects st \<noteq> []" by (simp add: one_live_run_def)
  note a = assms(3) this assms(4-)
  show "step Unmount st = Some (unmount st)" using a by (rule unmount_removes_widget)
  show "calls (unmount st) = calls st @ [TurnstileRemove w]" using a by (rule unmount_removes_widget)
  show "widgetIdRef (unmount st) = None" using a by (rule unmount_removes_widget)
  show "\<not> inTree (unmount st)" using a by (rule unmount_removes_widget)
qed

section \<open>The loaders: claims\<close>



text \<open>
  C8. After a load has been rejected by the 10 s timeout, \<open>scriptLoaded\<close> is still true
  (the load handler set it before the API object was ready), \<open>scriptLoading\<close> is false
  and \<open>loadPromise\<close> still holds the rejected promise. The API object being absent, the
  next call passes all three early returns and the check inside the executor, creates a
  new pending promise and appends a second script element with the same URL. Both loaders
  behave so.
\<close>

theorem reload_after_timeout_appends_second_script:
  "(grecaptcha pg = GAbsent \<longrightarrow> \<not> (scriptLoading pg \<and> loadPromise pg \<noteq> None) \<longrightarrow>
      (let (p, pg1) = loadGoogleScript key pg;
           k = length (scripts pg); poll = length (timers pg);
           pg4 = fire_timer (Suc poll) ((fire_timer poll ^^ n) (script_load k pg1));
           (p', pg5) = loadGoogleScript key pg4
       in promise_state p pg4 = Some (Rejected (Error ''Google reCAPTCHA failed to load'')) \<and>
          scriptLoaded pg4 \<and> \<not> scriptLoading pg4 \<and> loadPromise pg4 = Some p \<and>
          grecaptcha pg4 = GAbsent \<and>
          p' \<noteq> p \<and> promise_state p' pg5 = Some Pending \<and> loadPromise pg5 = Some p' \<and>
          scripts pg5 = scripts pg @
            [\<lparr>src = google_url key, owner = GoogleLoader p, fired = True\<rparr>,
             \<lparr>src = google_url key, owner = GoogleLoader p', fired = False\<rparr>]))
   \<and>
   (\<not> turnstile pg \<longrightarrow> \<not> (cfScriptLoading pg \<and> cfLoadPromise pg \<noteq> None) \<longrightarrow>
      (let (p, pg1) = loadCloudflareScript pg;
           k = length (scripts pg); poll = length (timers pg);
           pg4 = fire_timer (Suc poll) ((fire_timer poll ^^ n) (script_load k pg1));
           (p', pg5) = loadCloudflareScript pg4
       in promise_state p pg4 = Some (Rejected (Error ''Cloudflare Turnstile failed to load'')) \<and>
          cfScriptLoaded pg4 \<and> \<not> cfScriptLoading pg4 \<and> cfLoadPromise pg4 = Some p \<and>
          \<not> turnstile pg4 \<and>
          p' \<noteq> p \<and> promise_state p' pg5 = Some Pending \<and> cfLoadPromise pg5 = Some p' \<and>
          scripts pg5 = scripts pg @
            [\<lparr>src = cloudflare_url, owner = CloudflareLoader p, fired = True\<rparr>,
             \<lparr>src = cloudflare_url, owner = CloudflareLoader p', fired = False\<rparr>]))"
  using google_reload_after_timeout[of pg key n] cloudflare_reload_after_timeout[of pg n]
  by blast

theorem reload_after_timeout_appends_second_script_witness:
  "grecaptcha fresh_page = GAbsent \<and> \<not> (scriptLoading fresh_page \<and> loadPromise fresh_page \<noteq> None) \<and>
   \<not> turnstile fresh_page \<and> \<not> (cfScriptLoading fresh_page \<and> cfLoadPromise fresh_page \<noteq> None) \<and>
   (let (p, pg1) = loadGoogleScript ''key'' fresh_page;
        pg4 = fire_timer 1 ((fire_timer 0 ^^ 100) (script_load 0 pg1));
        (p', pg5) = loadGoogleScript ''key'' pg4
    in p' \<noteq> p \<and> promise_state p' pg5 = Some Pending \<and>
       map src (scripts pg5) = [google_url ''key'', google_url ''key'']) \<and>
   (let (p, pg1) = loadCloudflareScript fresh_page;
        pg4 = fire_timer 1 ((fire_timer 0 ^^ 100) (script_load 0 pg1));
        (p', pg5) = loadCloudflareScript pg4
    in p' \<noteq> p \<and> promise_state p' pg5 = Some Pending \<and>
       map src (scripts pg5) = [cloudflare_url, cloudflare_url])"
proof -
  have h: "grecaptcha fresh_page = GAbsent" "\<not> (scriptLoading fresh_page \<and> loadPromise fresh_page \<noteq> None)"
    "\<not> turnstile fresh_page" "\<not> (cfScriptLoading fresh_page \<and> cfLoadPromise fresh_page \<noteq> None)"
    by (simp_all add: fresh_page_def)
  have s: "scripts fresh_page = []" "timers fresh_page = []" by (simp_all add: fresh_page_def)
  show ?thesis
    using reload_after_timeout_appends_second_script[of fresh_page "''key''" 100] h
    by (simp add: s Let_def split_beta)
qed

text \<open>
  C9. In \<open>loadGoogleScript\<close> a poll fulfils the promise only when \<open>window.grecaptcha\<close>
  has its \<open>execute\<close> member, whereas the timeout fulfils it as soon as
  \<open>window.grecaptcha\<close> is defined at all. So when the script defines \<open>grecaptcha\<close> without
  \<open>execute\<close>, the promise stays pending through any number of polls and is fulfilled by
  the timeout, with \<open>execute\<close> still unavailable.
\<close>

theorem google_timeout_resolves_without_execute:
  "grecaptcha pg = GAbsent \<longrightarrow> \<not> (scriptLoading pg \<and> loadPromise pg \<noteq> None) \<longrightarrow>
     (let (p, pg1) = loadGoogleScript key pg;
          k = length (scripts pg); poll = length (timers pg);
          pg2 = (script_load k pg1)\<lparr>grecaptcha := g\<rparr>
      in promise_state p (fire_timer poll pg2) = Some (if g = GReady then Fulfilled else Pending) \<and>
         promise_state p (fire_timer (Suc poll) pg2) =
           Some (if g = GAbsent then Rejected (Error ''Google reCAPTCHA failed to load'') else Fulfilled) \<and>
         promise_state p ((fire_timer poll ^^ n) ((script_load k pg1)\<lparr>grecaptcha := GNoExecute\<rparr>)) = Some Pending \<and>
         promise_state p (fire_timer (Suc poll) ((fire_timer poll ^^ n) ((script_load k pg1)\<lparr>grecaptcha := GNoExecute\<rparr>))) = Some Fulfilled \<and>
         grecaptcha (fire_timer (Suc poll) ((fire_timer poll ^^ n) ((script_load k pg1)\<lparr>grecaptcha := GNoExecute\<rparr>))) = GNoExecute)"
  using google_timeout_without_execute_aux[of pg key g n] by blast

theorem google_timeout_resolves_without_execute_witness:
  "grecaptcha fresh_page = GAbsent \<and> \<not> (scriptLoading fresh_page \<and> loadPromise fresh_page \<noteq> None) \<and>
   (let (p, pg1) = loadGoogleScript ''key'' fresh_page;
        pg3 = (fire_timer 0 ^^ 100) ((script_load 0 pg1)\<lparr>grecaptcha := GNoExecute\<rparr>)
    in promise_state p pg3 = Some Pending \<and>
       promise_state p (fire_timer 1 pg3) = Some Fulfilled \<and>
       grecaptcha (fire_timer 1 pg3) = GNoExecute)"
proof -
  have h: "grecaptcha fresh_page = GAbsent" "\<not> (scriptLoading fresh_page \<and> loadPromise fresh_page \<noteq> None)"
    by (simp_all add: fresh_page_def)
  have s: "scripts fresh_page = []" "timers fresh_page = []" by (simp_all add: fresh_page_def)
  show ?thesis
    using google_timeout_resolves_without_execute[of fresh_page "''key''" GNoExecute 100] h
    by (simp add: s Let_def split_beta)
qed

text \<open>
  C2. The claim fails on the code in the window between the script's load event and the
  moment the promise of the first call settles. The first call starts the fetch and
  returns a pending promise. The load handler of the script clears \<open>scriptLoading\<close>
  although that promise is still pending. A second call made then, with the API object
  still absent, passes every early return: it creates a second promise, different from the
  first and also pending, and appends a second script element with the same URL. Both
  loaders behave so. If instead the script has defined \<open>grecaptcha\<close> without
  \<open>execute\<close>, the second call of the Google loader returns a new promise that is
  already fulfilled, while the first one is still pending.
\<close>

theorem second_load_after_onload_appends_script:
  "(let (p1, pg1) = loadGoogleScript ''key'' fresh_page;
        pg2 = script_load 0 pg1;
        (p2, pg3) = loadGoogleScript ''key'' pg2
    in promise_state p1 pg3 = Some Pending \<and> promise_state p2 pg3 = Some Pending \<and> p1 \<noteq> p2 \<and>
       map src (scripts pg3) = [google_url ''key'', google_url ''key''])
   \<and>
   (let (p1, pg1) = loadCloudflareScript fresh_page;
        pg2 = script_load 0 pg1;
        (p2, pg3) = loadCloudflareScript pg2
    in promise_state p1 pg3 = Some Pending \<and> promise_state p2 pg3 = Some Pending \<and> p1 \<noteq> p2 \<and>
       map src (scripts pg3) = [cloudflare_url, cloudflare_url])
   \<and>
   (let (p1, pg1) = loadGoogleScript ''key'' fresh_page;
        pg2 = (script_load 0 pg1)\<lparr>grecaptcha := GNoExecute\<rparr>;
        (p2, pg3) = loadGoogleScript ''key'' pg2
    in promise_state p1 pg3 = Some Pending \<and> promise_state p2 pg3 = Some Fulfilled \<and> p1 \<noteq> p2 \<and>
       map src (scripts pg3) = [google_url ''key''])"
  by (simp add: loadGoogleScript_def loadCloudflareScript_def fresh_page_def new_promise_def
      promise_resolve_def appendScript_def script_load_def google_onload_def cloudflare_onload_def
      setInterval_def setTimeout_def promise_state_def Let_def)

section \<open>The component: claims\<close>

text \<open>
  C1. The claim fails on the code: a component mounted with \<open>skip\<close> calls
  \<open>onVerify("skipped")\<close> twice. The first effect run calls \<open>initCaptcha\<close> after
  100 ms, which reports the token and sets \<open>isInitialized\<close>. \<open>isInitialized\<close> is a
  dependency of the effect, so the effect runs again, and its \<open>initCaptcha\<close> tests
  \<open>skip\<close> before it tests \<open>isInitialized\<close>: at 200 ms it reports the token a second
  time. Then nothing is left to run. The component renders nothing, as claimed.
\<close>

theorem skip_mount_reports_twice:
  "render skipped_props = None \<and>
   (case run [TimerFires] (mount skipped_props fresh_page) of
      None \<Rightarrow> False
    | Some st1 \<Rightarrow>
        now st1 = 100 \<and> calls st1 = [OnVerify ''skipped'', SetIsInitialized True] \<and>
        (case run [TimerFires] st1 of
           None \<Rightarrow> False
         | Some st2 \<Rightarrow>
             now st2 = 200 \<and>
             calls st2 = [OnVerify ''skipped'', SetIsInitialized True,
                          OnVerify ''skipped'', SetIsInitialized True] \<and>
             length (filter is_onVerify (calls st2)) = 2 \<and>
             run [TimerFires] st2 = None))"
  by (simp add: page_defs comp_defs skipped_props_def Let_def)

text \<open>
  C3. The claim fails on the code: the object given to \<open>useImperativeHandle\<close> has the
  one member \<open>reset\<close>, as the type \<open>CaptchaRef\<close> of the ref declares; calling
  \<open>execute\<close> through the ref raises a \<open>TypeError\<close>. \<open>execute\<close> is declared by
  \<open>CaptchaHandle\<close>, which the component does not use.
\<close>

theorem handle_lacks_execute:
  "call_handle ''execute'' (mount (default_props GoogleV3 ''key'') fresh_page) =
     Inl (Error ''ref.current.execute is not a function'') \<and>
   map fst handle = [''reset''] \<and> ''execute'' \<in> set CaptchaHandle \<and> ''execute'' \<notin> set CaptchaRef"
  by (simp add: call_handle_def handle_def CaptchaHandle_def CaptchaRef_def)

text \<open>
  C3, amended. The imperative handle has exactly the members of \<open>CaptchaRef\<close>, that is
  \<open>reset\<close>: calling \<open>reset\<close> through the ref runs \<open>reset\<close>, and calling any other
  member raises.
\<close>

theorem handle_is_reset_only:
  "map fst handle = CaptchaRef \<and>
   call_handle name st =
     (if name = ''reset'' then Inr (reset st)
      else Inl (Error (''ref.current.'' @ name @ '' is not a function'')))"
  by (simp add: call_handle_def handle_def CaptchaRef_def)

text \<open>
  C5. The claim fails on the code when the provider takes longer than 100 ms to answer.
  The instance is verified at 800 ms. \<open>reset\<close> is called: it sets \<open>isInitialized\<close> to
  false and calls \<open>grecaptcha.execute\<close>. The state change makes the effect run again,
  and 100 ms later its \<open>initCaptcha\<close> starts a second initialization: the script is
  loaded, so it waits 500 ms. The answer to the call of \<open>reset\<close> arrives 300 ms after the
  call: \<open>onVerify\<close> gets the new token. The effect runs again, but the 500 ms wait of the
  second initialization is not cancelled and nothing tests \<open>isMounted\<close> after it: 600 ms
  after \<open>reset\<close>, \<open>grecaptcha.execute\<close> is called a second time. Its token is dropped.
\<close>

theorem reset_executes_twice:
  "(case run google_verified (mount (default_props GoogleV3 ''key'') fresh_page) of
      None \<Rightarrow> False
    | Some st \<Rightarrow>
        isInitialized st \<and> now st = 800 \<and>
        calls st = [GrecaptchaExecute ''key'' ''default'', SetIsInitialized True, OnVerify ''token-1''] \<and>
        (case run [HostReset, TimerFires, Wait 200, ExecuteResolves 1 ''token-2'', TimerFires,
                   TimerFires, ExecuteResolves 2 ''token-3''] st of
           None \<Rightarrow> False
         | Some st' \<Rightarrow>
             now st' = 1400 \<and>
             calls st' = calls st @
               [SetIsInitialized False, GrecaptchaExecute ''key'' ''default'',
                SetIsInitialized True, OnVerify ''token-2'',
                GrecaptchaExecute ''key'' ''default''] \<and>
             length (filter is_grecaptcha_execute (drop (length (calls st)) (calls st'))) = 2))"
  by (simp add: page_defs comp_defs google_verified_def Let_def)




text \<open>
  C7. The claim fails on the code when a call of \<open>reset\<close> is awaiting the provider at
  the unmount. A Google instance is mounted on a fresh page; at 100 ms \<open>initCaptcha\<close>
  appends the script and awaits the load promise; the script loads and defines
  \<open>grecaptcha\<close>. Before the poll at 200 ms fulfils the promise, the host calls \<open>reset\<close>,
  which calls \<open>grecaptcha.execute\<close> and awaits the token. The component is unmounted,
  still mid-initialization. The provider answers: the continuation of \<open>reset\<close> calls
  \<open>setIsInitialized(true)\<close> and \<open>onVerify(token)\<close>, after the unmount. Unlike
  \<open>initCaptcha\<close>, \<open>reset\<close> does not test \<open>isMounted\<close> after its \<open>await\<close>.
\<close>

theorem reset_reports_after_unmount:
  "(case run [TimerFires, ScriptLoads 0, GrecaptchaBecomes GReady, HostReset]
           (mount (default_props GoogleV3 ''key'') fresh_page) of
      None \<Rightarrow> False
    | Some st \<Rightarrow>
        inTree st \<and> awaiting_load st \<and> now st = 100 \<and>
        calls st = [SetIsInitialized False, GrecaptchaExecute ''key'' ''default''] \<and>
        (case run [Unmount, ExecuteResolves 0 ''token''] st of
           None \<Rightarrow> False
         | Some st' \<Rightarrow>
             \<not> inTree st' \<and>
             calls st' = calls st @ [SetIsInitialized True, OnVerify ''token''] \<and>
             length (filter is_onVerify (calls st)) = 0 \<and>
             length (filter is_onVerify (calls st')) = 1))"
  by (simp add: page_defs comp_defs awaiting_load_def Let_def)

text \<open>
  C10. The success callback given to \<open>turnstile.render\<close> returns at once when the effect
  run that rendered the widget has been cleaned up: no token is reported and the state
  setter is not called. The expired-callback and the error-callback do not read
  \<open>isMounted\<close>: whenever the provider calls them, also after the unmount, they call
  \<open>setIsInitialized(false)\<close>.
\<close>

theorem callbacks_after_unmount:
  "w < length (widgets st) \<longrightarrow> \<not> effect_mounted (widgets st ! w) st \<longrightarrow>
     widget_callback w token st = st \<and>
     calls (widget_expired_callback w st) = calls st @ [SetIsInitialized False] \<and>
     calls (widget_error_callback w st) =
       calls st @ [ConsoleError '' Turnstile error:'', SetIsInitialized False] \<and>
     (\<not> inTree st \<longrightarrow>
        step (WidgetSuccess w token) st = Some st \<and>
        step (WidgetExpired w) st = Some (record_call (SetIsInitialized False) st) \<and>
        step (WidgetError w) st =
          Some (record_call (SetIsInitialized False) (record_call (ConsoleError '' Turnstile error:'') st)))"
  by (simp add: widget_callback_def widget_expired_callback_def widget_error_callback_def
      setIsInitialized_def record_call_def console_error_def rerender_def Let_def)

theorem callbacks_after_unmount_witness:
  "(case run (turnstile_rendered @ [Unmount]) (mount (default_props CloudflareTurnstile ''key'') fresh_page) of
      None \<Rightarrow> False
    | Some st \<Rightarrow>
        (0 < length (widgets st) \<and> \<not> effect_mounted (widgets st ! 0) st \<and> \<not> inTree st \<and>
         calls st = [TurnstileRender ''key'' Light ''invisible'', TurnstileExecute (Some 0),
                     TurnstileRemove 0]) \<and>
        (widget_callback 0 ''token'' st = st \<and>
         calls (widget_expired_callback 0 st) = calls st @ [SetIsInitialized False] \<and>
         calls (widget_error_callback 0 st) =
           calls st @ [ConsoleError '' Turnstile error:'', SetIsInitialized False] \<and>
         step (WidgetSuccess 0 ''token'') st = Some st \<and>
         step (WidgetExpired 0) st = Some (record_call (SetIsInitialized False) st) \<and>
         step (WidgetError 0) st =
           Some (record_call (SetIsInitialized False)
                  (record_call (ConsoleError '' Turnstile error:'') st))))"
proof -
  let ?r = "run (turnstile_rendered @ [Unmount]) (mount (default_props CloudflareTurnstile ''key'') fresh_page)"
  have "case ?r of
      None \<Rightarrow> False
    | Some st \<Rightarrow>
        0 < length (widgets st) \<and> \<not> effect_mounted (widgets st ! 0) st \<and> \<not> inTree st \<and>
         calls st = [TurnstileRender ''key'' Light ''invisible'', TurnstileExecute (Some 0),
                     TurnstileRemove 0]"
    by (simp add: page_defs comp_defs turnstile_rendered_def Let_def)
  then obtain st where r: "?r = Some st"
    and h: "0 < length (widgets st) \<and> \<not> effect_mounted (widgets st ! 0) st \<and> \<not> inTree st \<and>
         calls st = [TurnstileRender ''key'' Light ''invisible'', TurnstileExecute (Some 0),
                     TurnstileRemove 0]"
    by (cases ?r) auto
  from callbacks_after_unmount[of 0 st "''token''"] h
  have c: "widget_callback 0 ''token'' st = st \<and>
         calls (widget_expired_callback 0 st) = calls st @ [SetIsInitialized False] \<and>
         calls (widget_error_callback 0 st) =
           calls st @ [ConsoleError '' Turnstile error:'', SetIsInitialized False] \<and>
         step (WidgetSuccess 0 ''token'') st = Some st \<and>
         step (WidgetExpired 0) st = Some (record_call (SetIsInitialized False) st) \<and>
         step (WidgetError 0) st =
           Some (record_call (SetIsInitialized False)
                  (record_call (ConsoleError '' Turnstile error:'') st))"
    by blast
  show ?thesis unfolding r option.case using h c by (rule conjI)
qed

end
